theory Spec2Isabelle
  imports Complex_Main "HOL-Library.Multiset"
begin

section \<open>Python values used by \<^verbatim>\<open>tools/datasets_satellite_into_sview.py\<close>\<close>

text \<open>
  The module is read as Python 3: \<^verbatim>\<open>/\<close> between two integers is true division.
  Integers are unbounded (\<open>int\<close>); sample indices held in a partition are natural
  numbers. Floating point values (features, coordinates, fractions) are modelled as
  rationals: no statement below depends on rounding. Every exception the module can raise
  is a value of \<open>error\<close>, returned as \<open>Inl\<close>. \<open>StateError\<close> is the error the
  specification names for batching before \<^verbatim>\<open>pick_label\<close>; the module defines no such
  exception and no function below returns it.
\<close>

datatype error =
  IndexError | ValueError | ZeroDivisionError | FileNotFoundError | UnpicklingError | TypeError |
  OutOfRange | StateError

text \<open>
  \<^verbatim>\<open>xs[i:j]\<close> on a list: a negative bound counts from the end, and both bounds are
  clipped to the list.
\<close>

definition slice_bound :: "nat \<Rightarrow> int \<Rightarrow> nat" where
  "slice_bound n i = (if i < 0 then nat (max (i + int n) 0) else min (nat i) n)"

definition py_slice :: "'a list \<Rightarrow> int \<Rightarrow> int \<Rightarrow> 'a list" where
  "py_slice xs i j =
     (let a = slice_bound (length xs) i; b = slice_bound (length xs) j
      in take (b - a) (drop a xs))"

text \<open>
  \<^verbatim>\<open>np.int(np.ceil(a / b))\<close> for an integer \<open>b \<noteq> 0\<close>, and
  \<^verbatim>\<open>np.int(a / np.float(b))\<close>, which truncates towards zero.
\<close>

definition int_ceil :: "int \<Rightarrow> int \<Rightarrow> int" where
  "int_ceil a b = \<lceil>rat_of_int a / rat_of_int b\<rceil>"

definition int_trunc :: "int \<Rightarrow> int \<Rightarrow> int" where
  "int_trunc a b =
     (let q = rat_of_int a / rat_of_int b in if 0 \<le> q then \<lfloor>q\<rfloor> else \<lceil>q\<rceil>)"

section \<open>The data model\<close>

definition VGGM :: rat where "VGGM = - 524 / 100"
definition VGGS :: rat where "VGGS = 817 / 100"

definition map_labels :: "int list \<Rightarrow> int list" where
  "map_labels labels = map (\<lambda>x. x - 1) labels"

definition normalize_features :: "rat list \<Rightarrow> rat list" where
  "normalize_features x = map (\<lambda>v. (v - VGGM) / VGGS) x"

text \<open>
  The fields of \<^verbatim>\<open>Dataset\<close>. \<open>codes\<close> is the \<open>N \<times> 4 \<times> D\<close> feature array of the HDF5
  file, one four-view tuple per sample; \<open>vmap\<close> holds the four identifier columns
  \<^verbatim>\<open>img_id, pcd, oa11, lsoa11\<close> of the label table. \<open>sat_patch\<close> stands for the raster
  \<open>sat_raster_name\<close> read through \<^verbatim>\<open>gdal_tools.get_patch_series\<close> (not part of the
  module) at one coordinate pair with patch size \<open>psat_size\<close>, followed by
  \<^verbatim>\<open>normalize_satellite(np.log(.))\<close>; the patch type \<open>'p\<close> is left open.
  \<open>kpartitions\<close> exists only on \<^verbatim>\<open>Dataset_CrossValidation\<close> and \<open>label_test\<close> only on
  \<^verbatim>\<open>Dataset_TT_byclass\<close>. The fields \<^verbatim>\<open>label_dist\<close> and \<^verbatim>\<open>batch_inds\<close> are printed or
  never read and are left out.
\<close>

record 'p dataset =
  codes :: "(rat list \<times> rat list \<times> rat list \<times> rat list) list"
  labels :: "int list"
  vmap :: "(string \<times> string \<times> string \<times> string) list"
  label_name :: string
  clabels :: "string list option"
  gsv_lat :: "rat list"
  gsv_lng :: "rat list"
  psat_size :: nat
  sat_raster_name :: string
  sat_patch :: "rat \<Rightarrow> rat \<Rightarrow> 'p"
  label_types :: "int list"
  label_counts :: "nat list"
  num_labels :: nat
  batch_ind :: int
  batch_ind_test :: int
  batch_ind_valid :: int
  train_part :: "nat list"
  test_part :: "nat list"
  validation_part :: "nat list"
  kpartitions :: "nat list list"
  label_test :: "int list"

text \<open>
  \<^verbatim>\<open>Dataset.__init__\<close>, given what the two input files hold: the feature array, and the
  columns of the label table (the raw label column \<open>label_name\<close>, the identifier columns,
  the optional constraint column and the coordinates). \<^verbatim>\<open>np.unique\<close> returns the
  distinct labels in ascending order with their counts.
\<close>

definition Dataset_init ::
  "(rat list \<times> rat list \<times> rat list \<times> rat list) list \<Rightarrow> int list \<Rightarrow>
   (string \<times> string \<times> string \<times> string) list \<Rightarrow> string \<Rightarrow> string list option \<Rightarrow>
   rat list \<Rightarrow> rat list \<Rightarrow> string \<Rightarrow> (rat \<Rightarrow> rat \<Rightarrow> 'p) \<Rightarrow> nat \<Rightarrow> 'p dataset" where
  "Dataset_init features raw_labels ids lname craw lat lng sat_image patch sat_patchsize =
     (let labs = map_labels raw_labels;
          types = sort (remdups labs)
      in \<lparr> codes = features,
           labels = labs,
           vmap = ids,
           label_name = lname,
           clabels = craw,
           gsv_lat = lat,
           gsv_lng = lng,
           psat_size = sat_patchsize,
           sat_raster_name = sat_image,
           sat_patch = patch,
           label_types = types,
           label_counts = map (count_list labs) types,
           num_labels = length types,
           batch_ind = 0,
           batch_ind_test = 0,
           batch_ind_valid = 0,
           train_part = [],
           test_part = [],
           validation_part = [],
           kpartitions = [],
           label_test = [] \<rparr>)"

section \<open>Fetching rows\<close>

text \<open>
  What \<^verbatim>\<open>get_data_part\<close> returns: the four view arrays, the satellite patches and the
  one-hot label matrix, each with one row per fetched sample.
\<close>

record 'p batch =
  d1 :: "rat list list"
  d2 :: "rat list list"
  d3 :: "rat list list"
  d4 :: "rat list list"
  img :: "'p list"
  l :: "rat list list"

text \<open>
  An index is readable when every array indexed by \<^verbatim>\<open>get_data_part\<close> has that row;
  indexing past the end raises \<^verbatim>\<open>IndexError\<close>. The arrays are held by a storage library
  that is not part of the module; reading them at an index list is modelled as a random
  access read, one row per index. Where a storage library can differ from that, on an
  empty index list or one with a repeated index, the statements on fetched rows below
  are made for non-empty lists of distinct indices, and a fetch of zero rows is referred
  to as \<^verbatim>\<open>get_data_part([])\<close>, not by its value.
\<close>

definition readable :: "'p dataset \<Rightarrow> nat \<Rightarrow> bool" where
  "readable ds r \<longleftrightarrow>
     r < length (codes ds) \<and> r < length (labels ds) \<and>
     r < length (gsv_lat ds) \<and> r < length (gsv_lng ds)"

text \<open>Row \<open>k\<close> of the label matrix has a one in the column of the sample's label.\<close>

definition one_hot :: "'p dataset \<Rightarrow> int \<Rightarrow> rat list" where
  "one_hot ds lab = map (\<lambda>lab'. if lab = lab' then 1 else 0) (label_types ds)"

text \<open>The arrays read at the index list \<open>srows\<close>, in the order of \<open>srows\<close>.\<close>

definition take_rows :: "'p dataset \<Rightarrow> nat list \<Rightarrow> 'p batch" where
  "take_rows ds srows =
     \<lparr> d1 = map (\<lambda>r. normalize_features (fst (codes ds ! r))) srows,
       d2 = map (\<lambda>r. normalize_features (fst (snd (codes ds ! r)))) srows,
       d3 = map (\<lambda>r. normalize_features (fst (snd (snd (codes ds ! r))))) srows,
       d4 = map (\<lambda>r. normalize_features (snd (snd (snd (codes ds ! r))))) srows,
       img = map (\<lambda>r. sat_patch ds (gsv_lat ds ! r) (gsv_lng ds ! r)) srows,
       l = map (\<lambda>r. one_hot ds (labels ds ! r)) srows \<rparr>"

text \<open>
  \<^verbatim>\<open>get_data_part(rows)\<close> with \<^verbatim>\<open>noise_std=None\<close>, the only way the module calls it.
\<close>

definition get_data_part :: "'p dataset \<Rightarrow> nat list \<Rightarrow> error + 'p batch" where
  "get_data_part ds rows =
     (let srows = sort rows
      in if list_all (readable ds) srows then Inr (take_rows ds srows) else Inl IndexError)"

section \<open>Sequential batches\<close>

definition get_train_batch :: "'p dataset \<Rightarrow> int \<Rightarrow> error + ('p batch \<times> 'p dataset)" where
  "get_train_batch ds batch_size =
     (let rows = py_slice (train_part ds) (batch_ind ds) (batch_ind ds + batch_size)
      in case get_data_part ds rows of
           Inl e \<Rightarrow> Inl e
         | Inr b \<Rightarrow>
             (let ds1 = ds\<lparr>batch_ind := batch_ind ds + batch_size\<rparr>;
                  ds2 = (if batch_ind ds1 \<ge> int (length (train_part ds1))
                         then ds1\<lparr>batch_ind := 0\<rparr> else ds1)
              in Inr (b, ds2)))"

definition get_validation_batch :: "'p dataset \<Rightarrow> int \<Rightarrow> error + ('p batch \<times> 'p dataset)" where
  "get_validation_batch ds batch_size =
     (let rows = py_slice (validation_part ds) (batch_ind_valid ds)
                   (batch_ind_valid ds + batch_size)
      in case get_data_part ds rows of
           Inl e \<Rightarrow> Inl e
         | Inr b \<Rightarrow>
             (let ds1 = ds\<lparr>batch_ind_valid := batch_ind_valid ds + batch_size\<rparr>;
                  ds2 = (if batch_ind_valid ds1 \<ge> int (length (validation_part ds1))
                         then ds1\<lparr>batch_ind_valid := 0\<rparr> else ds1)
              in Inr (b, ds2)))"

definition get_test_batch :: "'p dataset \<Rightarrow> int \<Rightarrow> error + ('p batch \<times> 'p dataset)" where
  "get_test_batch ds batch_size =
     (let rows = py_slice (test_part ds) (batch_ind_test ds) (batch_ind_test ds + batch_size)
      in case get_data_part ds rows of
           Inl e \<Rightarrow> Inl e
         | Inr b \<Rightarrow>
             (let ds1 = ds\<lparr>batch_ind_test := batch_ind_test ds + batch_size\<rparr>;
                  ds2 = (if batch_ind_test ds1 \<ge> int (length (test_part ds1))
                         then ds1\<lparr>batch_ind_test := 0\<rparr> else ds1)
              in Inr (b, ds2)))"

text \<open>
  A caller requesting \<open>n\<close> batches in a row from one getter; the first exception ends the
  run.
\<close>

fun consecutive ::
  "nat \<Rightarrow> ('s \<Rightarrow> error + ('a \<times> 's)) \<Rightarrow> 's \<Rightarrow> error + ('a list \<times> 's)" where
  "consecutive 0 f s = Inr ([], s)"
| "consecutive (Suc n) f s =
     (case f s of
        Inl e \<Rightarrow> Inl e
      | Inr (b, s') \<Rightarrow>
          (case consecutive n f s' of
             Inl e \<Rightarrow> Inl e
           | Inr (bs, s'') \<Rightarrow> Inr (b # bs, s'')))"

section \<open>Balanced batches\<close>

text \<open>
  \<^verbatim>\<open>np.where(xs == v)[0]\<close>: the positions of \<open>v\<close> in \<open>xs\<close>, ascending.
\<close>

definition where_eq :: "'a list \<Rightarrow> 'a \<Rightarrow> nat list" where
  "where_eq xs v = filter (\<lambda>i. xs ! i = v) [0..<length xs]"

text \<open>
  The balanced getters draw from numpy's process-wide random generator, which is no part
  of the dataset. The argument \<open>permutation\<close> stands for \<^verbatim>\<open>np.random.permutation\<close>
  during one call of the getter: \<open>permutation k xs\<close> is what the \<open>k\<close>-th call of the loop
  returns for \<open>xs\<close>. The getters assign no field of \<^verbatim>\<open>self\<close>; like every method they
  return the dataset after the call.
\<close>

definition get_balanced_train_batch ::
  "(nat \<Rightarrow> nat list \<Rightarrow> nat list) \<Rightarrow> 'p dataset \<Rightarrow> int \<Rightarrow> error + ('p batch \<times> 'p dataset)" where
  "get_balanced_train_batch permutation ds batch_size =
     (let lsize = length (label_types ds)
      in if lsize = 0 then Inl ZeroDivisionError
         else if \<not> list_all (\<lambda>r. r < length (labels ds)) (train_part ds) then Inl IndexError
         else
           (let lbatch_size = int_trunc batch_size (int lsize);
                rows = concat (map (\<lambda>(k, lab).
                         (let lrows = py_slice
                                (permutation k
                                   (where_eq (map (\<lambda>r. labels ds ! r) (train_part ds)) lab))
                                0 lbatch_size
                          in map (\<lambda>i. train_part ds ! i) lrows))
                       (enumerate 0 (label_types ds)))
            in case get_data_part ds rows of
                 Inl e \<Rightarrow> Inl e
               | Inr b \<Rightarrow> Inr (b, ds)))"

definition get_balanced_validation_batch ::
  "(nat \<Rightarrow> nat list \<Rightarrow> nat list) \<Rightarrow> 'p dataset \<Rightarrow> int \<Rightarrow> error + ('p batch \<times> 'p dataset)" where
  "get_balanced_validation_batch permutation ds batch_size =
     (let lsize = length (label_types ds)
      in if lsize = 0 then Inl ZeroDivisionError
         else if \<not> list_all (\<lambda>r. r < length (labels ds)) (validation_part ds)
         then Inl IndexError
         else
           (let lbatch_size = int_trunc batch_size (int lsize);
                rows = concat (map (\<lambda>(k, lab).
                         (let lrows = py_slice
                                (permutation k
                                   (where_eq (map (\<lambda>r. labels ds ! r) (validation_part ds)) lab))
                                0 lbatch_size
                          in map (\<lambda>i. validation_part ds ! i) lrows))
                       (enumerate 0 (label_types ds)))
            in case get_data_part ds rows of
                 Inl e \<Rightarrow> Inl e
               | Inr b \<Rightarrow> Inr (b, ds)))"

section \<open>Full-pass iterators\<close>

text \<open>
  A generator is modelled by the sequence of items it yields together with the exception
  that ended it, if one did. \<open>yield_all\<close> runs the loop body over the loop's range.
\<close>

fun yield_all :: "('n \<Rightarrow> error + 'a) \<Rightarrow> 'n list \<Rightarrow> 'a list \<times> error option" where
  "yield_all body [] = ([], None)"
| "yield_all body (n # ns) =
     (case body n of
        Inl e \<Rightarrow> ([], Some e)
      | Inr x \<Rightarrow> (case yield_all body ns of (xs, r) \<Rightarrow> (x # xs, r)))"

definition test_iterator ::
  "'p dataset \<Rightarrow> int \<Rightarrow>
   ('p batch \<times> (string \<times> string \<times> string \<times> string) list) list \<times> error option" where
  "test_iterator ds batch_num =
     (if batch_num = 0 then ([], Some ZeroDivisionError)
      else
        (let num_iter = int_ceil (int (length (test_part ds))) batch_num
         in yield_all
              (\<lambda>n. (let rows = py_slice (test_part ds) (int n * batch_num)
                                 ((int n + 1) * batch_num)
                     in case get_data_part ds rows of
                          Inl e \<Rightarrow> Inl e
                        | Inr b \<Rightarrow>
                            if list_all (\<lambda>r. r < length (vmap ds)) (sort rows)
                            then Inr (b, map (\<lambda>r. vmap ds ! r) (sort rows))
                            else Inl IndexError))
              [0..<nat num_iter]))"

definition validation_iterator :: "'p dataset \<Rightarrow> int \<Rightarrow> 'p batch list \<times> error option" where
  "validation_iterator ds batch_num =
     (if batch_num = 0 then ([], Some ZeroDivisionError)
      else
        (let num_iter = int_ceil (int (length (validation_part ds))) batch_num
         in yield_all
              (\<lambda>n. (let rows = py_slice (validation_part ds) (int n * batch_num)
                                 ((int n + 1) * batch_num)
                     in get_data_part ds rows))
              [0..<nat num_iter]))"

section \<open>Files and the prediction export\<close>

datatype cell = Str string | Num int

record table =
  columns :: "string list"
  lines :: "cell list list"

text \<open>
  What a file holds: a pickled index list, a pickled list of folds, or a CSV table.
\<close>

datatype content = Pickle_part "nat list" | Pickle_folds "nat list list" | Csv table

type_synonym files = "string \<rightharpoonup> content"

text \<open>
  The four-line body shared by \<^verbatim>\<open>write_preds\<close> and every \<^verbatim>\<open>write_preds_validation\<close>:
  the identifier columns and the label of the sorted rows, then the predictions as a last
  column. \<^verbatim>\<open>np.append(..., axis=1)\<close> raises \<^verbatim>\<open>ValueError\<close> when the row counts differ.
\<close>

definition pred_matrix ::
  "'p dataset \<Rightarrow> nat list \<Rightarrow> int list \<Rightarrow> error + table" where
  "pred_matrix ds part preds =
     (let srows = sort part
      in if \<not> list_all (\<lambda>r. r < length (vmap ds) \<and> r < length (labels ds)) srows
         then Inl IndexError
         else if length preds \<noteq> length srows then Inl ValueError
         else Inr \<lparr> columns = [''img_id'', ''pcd'', ''oa11'', ''lsoa11'', label_name ds,
                               ''predicted''],
                    lines = map (\<lambda>(r, p).
                              (case vmap ds ! r of
                                 (a, b, c, d) \<Rightarrow>
                                   [Str a, Str b, Str c, Str d, Num (labels ds ! r), Num p]))
                            (zip srows preds) \<rparr>)"

definition write_preds :: "'p dataset \<Rightarrow> int list \<Rightarrow> string \<Rightarrow> files \<Rightarrow> error + files" where
  "write_preds ds preds fname fs =
     (case pred_matrix ds (test_part ds) preds of
        Inl e \<Rightarrow> Inl e
      | Inr t \<Rightarrow> Inr (fs(fname \<mapsto> Csv t)))"

definition Dataset_TVT_write_preds_validation ::
  "'p dataset \<Rightarrow> int list \<Rightarrow> string \<Rightarrow> files \<Rightarrow> error + files" where
  "Dataset_TVT_write_preds_validation ds preds fname fs =
     (case pred_matrix ds (validation_part ds) preds of
        Inl e \<Rightarrow> Inl e
      | Inr t \<Rightarrow> Inr (fs(fname \<mapsto> Csv t)))"

section \<open>The two-way subclasses\<close>

definition Dataset_TT_get_validation_batch ::
  "'p dataset \<Rightarrow> int \<Rightarrow> error + ('p batch \<times> 'p dataset)" where
  "Dataset_TT_get_validation_batch ds batch_size = get_train_batch ds batch_size"

definition Dataset_TT_get_balanced_validation_batch ::
  "(nat \<Rightarrow> nat list \<Rightarrow> nat list) \<Rightarrow> 'p dataset \<Rightarrow> int \<Rightarrow> error + ('p batch \<times> 'p dataset)" where
  "Dataset_TT_get_balanced_validation_batch permutation ds batch_size =
     get_balanced_train_batch permutation ds batch_size"

definition Dataset_TT_write_preds_validation ::
  "'p dataset \<Rightarrow> int list \<Rightarrow> string \<Rightarrow> files \<Rightarrow> error + files" where
  "Dataset_TT_write_preds_validation ds preds fname fs =
     (case pred_matrix ds (validation_part ds) preds of
        Inl e \<Rightarrow> Inl e
      | Inr t \<Rightarrow> Inr (fs(fname \<mapsto> Csv t)))"

definition Dataset_TT_byclass_get_validation_batch ::
  "'p dataset \<Rightarrow> int \<Rightarrow> error + ('p batch \<times> 'p dataset)" where
  "Dataset_TT_byclass_get_validation_batch ds batch_size = get_train_batch ds batch_size"

definition Dataset_TT_byclass_get_balanced_validation_batch ::
  "(nat \<Rightarrow> nat list \<Rightarrow> nat list) \<Rightarrow> 'p dataset \<Rightarrow> int \<Rightarrow> error + ('p batch \<times> 'p dataset)" where
  "Dataset_TT_byclass_get_balanced_validation_batch permutation ds batch_size =
     get_balanced_train_batch permutation ds batch_size"

definition Dataset_TT_byclass_write_preds_validation ::
  "'p dataset \<Rightarrow> int list \<Rightarrow> string \<Rightarrow> files \<Rightarrow> error + files" where
  "Dataset_TT_byclass_write_preds_validation ds preds fname fs =
     (case pred_matrix ds (validation_part ds) preds of
        Inl e \<Rightarrow> Inl e
      | Inr t \<Rightarrow> Inr (fs(fname \<mapsto> Csv t)))"

section \<open>The partitioning module\<close>

text \<open>
  \<^verbatim>\<open>partitioning\<close> is imported by the module and its source is not part of it. The four
  generating functions (\<^verbatim>\<open>partition_stratified_kfold\<close>, \<^verbatim>\<open>partition_stratified_validation\<close>,
  \<^verbatim>\<open>partition_stratified\<close>, \<^verbatim>\<open>partition_by_class\<close>) are arguments of the \<^verbatim>\<open>pick_label\<close>
  that calls them: any function of the arguments the source passes, returning the
  partitions or an error. The two functions every \<^verbatim>\<open>pick_label\<close> may call after loading
  are defined below.
\<close>

text \<open>
  Modelled from the spec: \<^verbatim>\<open>partitioning.get_partition_stratified_kfold(fold_index,
  kpartitions) -> (train_idx, test_idx)\<close>, whose source is missing. Test is
  \<^verbatim>\<open>kpartitions[fold_index]\<close>, train is the union of all other folds (here in fold order),
  and a fold index outside \<open>[0, k)\<close> fails with an OutOfRange error.
\<close>

definition get_partition_stratified_kfold ::
  "int \<Rightarrow> nat list list \<Rightarrow> error + (nat list \<times> nat list)" where
  "get_partition_stratified_kfold fold_index kparts =
     (if 0 \<le> fold_index \<and> fold_index < int (length kparts)
      then Inr (concat (take (nat fold_index) kparts @ drop (Suc (nat fold_index)) kparts),
                kparts ! nat fold_index)
      else Inl OutOfRange)"

text \<open>
  Units of one class inside a partition: its samples one by one, or, with a constraint
  column, its samples grouped by constraint key in order of first occurrence.
\<close>

definition class_units ::
  "nat list \<Rightarrow> int list \<Rightarrow> string list option \<Rightarrow> int \<Rightarrow> nat list list" where
  "class_units part labs cl c =
     (let members = filter (\<lambda>r. labs ! r = c) part
      in case cl of
           None \<Rightarrow> map (\<lambda>r. [r]) members
         | Some g \<Rightarrow>
             map (\<lambda>k. filter (\<lambda>r. g ! r = k) members) (remdups (map (\<lambda>r. g ! r) members)))"

text \<open>
  A constraint column is consistent on a partition when samples that share a constraint key
  share their label.
\<close>

definition uniform_groups :: "nat list \<Rightarrow> int list \<Rightarrow> string list option \<Rightarrow> bool" where
  "uniform_groups part labs cl =
     (case cl of
        None \<Rightarrow> True
      | Some g \<Rightarrow>
          list_all (\<lambda>r. list_all (\<lambda>r'. if g ! r = g ! r' then labs ! r = labs ! r' else True) part)
            part)"

text \<open>Whole units are kept while fewer than \<open>n\<close> samples have been kept.\<close>

fun keep_units :: "nat \<Rightarrow> nat list list \<Rightarrow> nat list list \<times> nat list list" where
  "keep_units n [] = ([], [])"
| "keep_units n (u # us) =
     (if n = 0 then ([], u # us)
      else (case keep_units (n - length u) us of (kept, rest) \<Rightarrow> (u # kept, rest)))"

text \<open>
  Modelled from the spec: \<^verbatim>\<open>partitioning.decimate_partition_stratified(partition, labels,
  keep_fraction, groups=None) -> (subset_idx, remainder_idx)\<close>, whose source is missing:
  a randomly selected stratified, group-cohesive subset of size \<open>keep_fraction * |partition|\<close>
  of an existing partition; a fraction outside \<open>(0,1)\<close>, or a constraint group whose
  labels are not uniform, fails with a validation error. The
  source re-permutes on every call and \<^verbatim>\<open>pick_label\<close> passes it no seed: \<open>permutation k\<close>
  stands for the random permutation drawn for the \<open>k\<close>-th class during one call. For each
  class in ascending order the permuted units are kept up to \<open>round(keep_fraction * count)\<close>
  samples.
\<close>

definition decimate_partition_stratified ::
  "(nat \<Rightarrow> nat list list \<Rightarrow> nat list list) \<Rightarrow> nat list \<Rightarrow> int list \<Rightarrow> rat \<Rightarrow>
   string list option \<Rightarrow> error + (nat list \<times> nat list)" where
  "decimate_partition_stratified permutation part labs psize cl =
     (if \<not> (0 < psize \<and> psize < 1) then Inl ValueError
      else if \<not> list_all (\<lambda>r. r < length labs) part then Inl IndexError
      else if \<not> uniform_groups part labs cl then Inl ValueError
      else
        (let classes = sort (remdups (map (\<lambda>r. labs ! r) part));
             picks = map (\<lambda>(k, c).
                        keep_units
                          (nat (round (psize * rat_of_nat (length (filter (\<lambda>r. labs ! r = c) part)))))
                          (permutation k (class_units part labs cl c)))
                      (enumerate 0 classes)
         in Inr (concat (concat (map fst picks)), concat (concat (map snd picks)))))"

section \<open>Choosing the partitions\<close>

text \<open>
  \<^verbatim>\<open>pickle.dump\<close> and \<^verbatim>\<open>pickle.load\<close> on the files. The partition fields hold index lists
  and \<open>kpartitions\<close> a list of folds, so a file of the other pickled shape is refused when it
  is loaded.
\<close>

definition load_part :: "files \<Rightarrow> string \<Rightarrow> error + nat list" where
  "load_part fs name =
     (case fs name of
        None \<Rightarrow> Inl FileNotFoundError
      | Some (Pickle_part p) \<Rightarrow> Inr p
      | Some (Pickle_folds k) \<Rightarrow> Inl TypeError
      | Some (Csv t) \<Rightarrow> Inl UnpicklingError)"

definition load_folds :: "files \<Rightarrow> string \<Rightarrow> error + nat list list" where
  "load_folds fs name =
     (case fs name of
        None \<Rightarrow> Inl FileNotFoundError
      | Some (Pickle_part p) \<Rightarrow> Inl TypeError
      | Some (Pickle_folds k) \<Rightarrow> Inr k
      | Some (Csv t) \<Rightarrow> Inl UnpicklingError)"

text \<open>
  Each \<^verbatim>\<open>pick_label\<close> returns the dataset and the files after the call. When it raises,
  only the exception is returned.
\<close>

definition Dataset_CrossValidation_pick_label ::
  "(int \<Rightarrow> int list \<Rightarrow> int option \<Rightarrow> string list option \<Rightarrow> error + nat list list) \<Rightarrow>
   (nat \<Rightarrow> nat list list \<Rightarrow> nat list list) \<Rightarrow> 'p dataset \<Rightarrow> files \<Rightarrow>
   int \<Rightarrow> string \<Rightarrow> int \<Rightarrow> int \<Rightarrow> rat \<Rightarrow> int option \<Rightarrow> error + ('p dataset \<times> files)" where
  "Dataset_CrossValidation_pick_label partition_stratified_kfold permutation ds fs
       part_gen part_file part_kn part_kp vsize seed =
     (case (if part_gen = 1 then
              (case partition_stratified_kfold part_kn (labels ds) seed (clabels ds) of
                 Inl e \<Rightarrow> Inl e
               | Inr kp0 \<Rightarrow>
                   (case partition_stratified_kfold part_kn (labels ds) seed (clabels ds) of
                      Inl e \<Rightarrow> Inl e
                    | Inr kp \<Rightarrow> Inr (kp, fs(part_file \<mapsto> Pickle_folds kp))))
            else
              (case load_folds fs part_file of
                 Inl e \<Rightarrow> Inl e
               | Inr kp \<Rightarrow> Inr (kp, fs)))
      of
        Inl e \<Rightarrow> Inl e
      | Inr (kp, fs') \<Rightarrow>
          (case get_partition_stratified_kfold part_kp kp of
             Inl e \<Rightarrow> Inl e
           | Inr (train0, test) \<Rightarrow>
               (let ds1 = ds\<lparr>kpartitions := kp, test_part := test\<rparr>
                in if vsize > 0 then
                     (case decimate_partition_stratified permutation train0 (labels ds1)
                             (1 - vsize) (clabels ds1) of
                        Inl e \<Rightarrow> Inl e
                      | Inr (tr, va) \<Rightarrow>
                          Inr (ds1\<lparr>train_part := tr, validation_part := va\<rparr>, fs'))
                   else Inr (ds1\<lparr>train_part := train0\<rparr>, fs'))))"

definition Dataset_TVT_pick_label ::
  "(int list \<Rightarrow> rat \<Rightarrow> rat \<Rightarrow> int option \<Rightarrow> string list option \<Rightarrow>
      error + (nat list \<times> nat list \<times> nat list)) \<Rightarrow>
   (nat \<Rightarrow> nat list list \<Rightarrow> nat list list) \<Rightarrow> 'p dataset \<Rightarrow> files \<Rightarrow>
   int \<Rightarrow> string \<Rightarrow> rat \<Rightarrow> rat \<Rightarrow> rat \<Rightarrow> int option \<Rightarrow> error + ('p dataset \<times> files)" where
  "Dataset_TVT_pick_label partition_stratified_validation permutation ds fs
       part_gen part_file train_size valid_size psize seed =
     (case (if part_gen = 1 then
              (case partition_stratified_validation (labels ds) train_size valid_size seed
                      (clabels ds) of
                 Inl e \<Rightarrow> Inl e
               | Inr (train0, valid, test) \<Rightarrow>
                   Inr (train0, valid, test,
                        fs(part_file @ ''_train'' \<mapsto> Pickle_part train0,
                           part_file @ ''_validation'' \<mapsto> Pickle_part valid,
                           part_file @ ''_test'' \<mapsto> Pickle_part test)))
            else
              (case load_part fs (part_file @ ''_train'') of
                 Inl e \<Rightarrow> Inl e
               | Inr train0 \<Rightarrow>
                   (case load_part fs (part_file @ ''_validation'') of
                      Inl e \<Rightarrow> Inl e
                    | Inr valid \<Rightarrow>
                        (case load_part fs (part_file @ ''_test'') of
                           Inl e \<Rightarrow> Inl e
                         | Inr test \<Rightarrow> Inr (train0, valid, test, fs)))))
      of
        Inl e \<Rightarrow> Inl e
      | Inr (train0, valid, test, fs') \<Rightarrow>
          (let ds1 = ds\<lparr>validation_part := valid, test_part := test\<rparr>
           in if psize < 1 then
                (case decimate_partition_stratified permutation train0 (labels ds1) psize None of
                   Inl e \<Rightarrow> Inl e
                 | Inr (tr, rest) \<Rightarrow> Inr (ds1\<lparr>train_part := tr\<rparr>, fs'))
              else Inr (ds1\<lparr>train_part := train0\<rparr>, fs')))"

definition Dataset_TT_pick_label ::
  "(int list \<Rightarrow> rat \<Rightarrow> int option \<Rightarrow> string list option \<Rightarrow> error + (nat list \<times> nat list)) \<Rightarrow>
   (nat \<Rightarrow> nat list list \<Rightarrow> nat list list) \<Rightarrow> 'p dataset \<Rightarrow> files \<Rightarrow>
   int \<Rightarrow> string \<Rightarrow> rat \<Rightarrow> rat \<Rightarrow> int option \<Rightarrow> error + ('p dataset \<times> files)" where
  "Dataset_TT_pick_label partition_stratified permutation ds fs
       part_gen part_file train_size psize seed =
     (case (if part_gen = 1 then
              (case partition_stratified (labels ds) train_size seed (clabels ds) of
                 Inl e \<Rightarrow> Inl e
               | Inr (train0, test) \<Rightarrow>
                   Inr (train0, test,
                        fs(part_file @ ''_train'' \<mapsto> Pickle_part train0,
                           part_file @ ''_test'' \<mapsto> Pickle_part test)))
            else
              (case load_part fs (part_file @ ''_train'') of
                 Inl e \<Rightarrow> Inl e
               | Inr train0 \<Rightarrow>
                   (case load_part fs (part_file @ ''_test'') of
                      Inl e \<Rightarrow> Inl e
                    | Inr test \<Rightarrow> Inr (train0, test, fs))))
      of
        Inl e \<Rightarrow> Inl e
      | Inr (train0, test, fs') \<Rightarrow>
          (let ds1 = ds\<lparr>test_part := test\<rparr>
           in if psize < 1 then
                (case decimate_partition_stratified permutation train0 (labels ds1) psize None of
                   Inl e \<Rightarrow> Inl e
                 | Inr (tr, rest) \<Rightarrow> Inr (ds1\<lparr>train_part := tr\<rparr>, fs'))
              else Inr (ds1\<lparr>train_part := train0\<rparr>, fs')))"

definition Dataset_TT_byclass_pick_label ::
  "(int list \<Rightarrow> int list \<Rightarrow> int option \<Rightarrow> error + (nat list \<times> nat list)) \<Rightarrow>
   (nat \<Rightarrow> nat list list \<Rightarrow> nat list list) \<Rightarrow> 'p dataset \<Rightarrow> files \<Rightarrow>
   int \<Rightarrow> string \<Rightarrow> rat \<Rightarrow> rat \<Rightarrow> int option \<Rightarrow> error + ('p dataset \<times> files)" where
  "Dataset_TT_byclass_pick_label partition_by_class permutation ds fs
       part_gen part_file train_size psize seed =
     (case (if part_gen = 1 then
              (case partition_by_class (labels ds) (label_test ds) seed of
                 Inl e \<Rightarrow> Inl e
               | Inr (train0, test) \<Rightarrow>
                   Inr (train0, test,
                        fs(part_file @ ''_train'' \<mapsto> Pickle_part train0,
                           part_file @ ''_test'' \<mapsto> Pickle_part test)))
            else
              (case load_part fs (part_file @ ''_train'') of
                 Inl e \<Rightarrow> Inl e
               | Inr train0 \<Rightarrow>
                   (case load_part fs (part_file @ ''_test'') of
                      Inl e \<Rightarrow> Inl e
                    | Inr test \<Rightarrow> Inr (train0, test, fs))))
      of
        Inl e \<Rightarrow> Inl e
      | Inr (train0, test, fs') \<Rightarrow>
          (let ds1 = ds\<lparr>test_part := test\<rparr>
           in if psize < 1 then
                (case decimate_partition_stratified permutation train0 (labels ds1) psize None of
                   Inl e \<Rightarrow> Inl e
                 | Inr (tr, rest) \<Rightarrow> Inr (ds1\<lparr>train_part := tr\<rparr>, fs'))
              else Inr (ds1\<lparr>train_part := train0\<rparr>, fs')))"

section \<open>Notions used to state the properties\<close>

text \<open>
  A full pass over a partition in batches of \<open>batch_size\<close>, starting at cursor \<open>0\<close>: the
  number of batches \<open>ceil(|part| / batch_size)\<close> and the index slice of the \<open>k\<close>-th batch.
\<close>

definition num_batches :: "'a list \<Rightarrow> int \<Rightarrow> nat" where
  "num_batches part batch_size = nat (int_ceil (int (length part)) batch_size)"

definition batch_rows :: "'a list \<Rightarrow> int \<Rightarrow> nat \<Rightarrow> 'a list" where
  "batch_rows part batch_size k =
     py_slice part (int k * batch_size) (int k * batch_size + batch_size)"

text \<open>
  A population of nine samples, three of each of the raw labels 1, 2 and 3, with the
  feature value of sample \<open>i\<close> equal to \<open>i\<close> in every view, used to evaluate the
  definitions at concrete inputs.
\<close>

definition demo :: "nat dataset" where
  "demo = Dataset_init
     [([0], [0], [0], [0]), ([1], [1], [1], [1]), ([2], [2], [2], [2]),
      ([3], [3], [3], [3]), ([4], [4], [4], [4]), ([5], [5], [5], [5]),
      ([6], [6], [6], [6]), ([7], [7], [7], [7]), ([8], [8], [8], [8])]
     [1, 1, 1, 2, 2, 2, 3, 3, 3]
     [(''a'', ''p'', ''o'', ''l''), (''b'', ''p'', ''o'', ''l''), (''c'', ''p'', ''o'', ''l''),
      (''d'', ''p'', ''o'', ''l''), (''e'', ''p'', ''o'', ''l''), (''f'', ''p'', ''o'', ''l''),
      (''g'', ''p'', ''o'', ''l''), (''h'', ''p'', ''o'', ''l''), (''i'', ''p'', ''o'', ''l'')]
     ''decile'' None
     [0, 0, 0, 0, 0, 0, 0, 0, 0]
     [0, 0, 0, 0, 0, 0, 0, 0, 0]
     ''sat.tif'' (\<lambda>lat lng. 0) 8"

text \<open>The population after a three-way split, with every cursor at 0.\<close>

definition demo_split :: "nat dataset" where
  "demo_split = demo\<lparr>train_part := [4, 0, 8, 2, 6], test_part := [7, 1, 3],
                      validation_part := [5]\<rparr>"


text \<open>
  Outcomes of the four generating functions on the population: three folds, a split into
  train and test thirds with an empty validation part, and the split that holds out class 2.
  Each is stratified and ignores its arguments.
\<close>

definition demo_kfold ::
  "int \<Rightarrow> int list \<Rightarrow> int option \<Rightarrow> string list option \<Rightarrow> error + nat list list" where
  "demo_kfold part_kn labs seed cl = Inr [[0, 3, 6], [1, 4, 7], [2, 5, 8]]"

definition demo_tvt ::
  "int list \<Rightarrow> rat \<Rightarrow> rat \<Rightarrow> int option \<Rightarrow> string list option \<Rightarrow>
   error + (nat list \<times> nat list \<times> nat list)" where
  "demo_tvt labs train_size valid_size seed cl = Inr ([0, 1, 3, 4, 6, 7], [], [2, 5, 8])"

definition demo_tt ::
  "int list \<Rightarrow> rat \<Rightarrow> int option \<Rightarrow> string list option \<Rightarrow> error + (nat list \<times> nat list)" where
  "demo_tt labs train_size seed cl = Inr ([0, 1, 3, 4, 6, 7], [2, 5, 8])"

definition demo_byclass ::
  "int list \<Rightarrow> int list \<Rightarrow> int option \<Rightarrow> error + (nat list \<times> nat list)" where
  "demo_byclass labs held_out seed = Inr ([0, 1, 2, 3, 4, 5], [6, 7, 8])"

text \<open>The files written by the three-way generation above under the name \<open>part\<close>.\<close>

definition demo_files :: files where
  "demo_files = [''part_train'' \<mapsto> Pickle_part [0, 1, 3, 4, 6, 7],
                 ''part_validation'' \<mapsto> Pickle_part [],
                 ''part_test'' \<mapsto> Pickle_part [2, 5, 8]]"

section \<open>Slices, fetching and the cursor step\<close>

lemma slice_bound_nonneg: "0 \<le> i \<Longrightarrow> slice_bound n i = min (nat i) n"
  by (simp add: slice_bound_def)

lemma py_slice_nonneg:
  "0 \<le> i \<Longrightarrow> i \<le> j \<Longrightarrow> py_slice xs i j = take (nat j - nat i) (drop (nat i) xs)"
  by (auto simp: py_slice_def slice_bound_nonneg Let_def min_def)

lemma set_py_slice: "set (py_slice xs i j) \<subseteq> set xs"
  unfolding py_slice_def Let_def
  by (meson set_drop_subset set_take_subset subset_trans)

lemma list_all_py_slice: "list_all P xs \<Longrightarrow> list_all P (py_slice xs i j)"
  using set_py_slice[of xs i j] by (auto simp: list_all_iff)

lemma get_data_part_readable:
  "list_all (readable ds) rows \<Longrightarrow> get_data_part ds rows = Inr (take_rows ds (sort rows))"
  by (simp add: get_data_part_def list_all_iff)

lemma get_data_part_Inr:
  "get_data_part ds rows = Inr b \<Longrightarrow> b = take_rows ds (sort rows)"
  by (auto simp: get_data_part_def Let_def split: if_splits)

lemma get_train_batch_Inr:
  assumes "get_train_batch ds bs = Inr (b, ds')"
  shows "ds' = ds\<lparr>batch_ind := (if batch_ind ds + bs \<ge> int (length (train_part ds)) then 0 else batch_ind ds + bs)\<rparr>"
  using assms by (auto simp: get_train_batch_def Let_def split: sum.splits if_splits)

lemma get_validation_batch_Inr:
  assumes "get_validation_batch ds bs = Inr (b, ds')"
  shows "ds' = ds\<lparr>batch_ind_valid := (if batch_ind_valid ds + bs \<ge> int (length (validation_part ds)) then 0 else batch_ind_valid ds + bs)\<rparr>"
  using assms by (auto simp: get_validation_batch_def Let_def split: sum.splits if_splits)

lemma get_test_batch_Inr:
  assumes "get_test_batch ds bs = Inr (b, ds')"
  shows "ds' = ds\<lparr>batch_ind_test := (if batch_ind_test ds + bs \<ge> int (length (test_part ds)) then 0 else batch_ind_test ds + bs)\<rparr>"
  using assms by (auto simp: get_test_batch_def Let_def split: sum.splits if_splits)

lemma get_train_batch_readable:
  assumes "list_all (readable ds) (train_part ds)"
  shows "get_train_batch ds bs =
     Inr (take_rows ds (sort (py_slice (train_part ds) (batch_ind ds) (batch_ind ds + bs))),
          ds\<lparr>batch_ind := (if batch_ind ds + bs \<ge> int (length (train_part ds)) then 0 else batch_ind ds + bs)\<rparr>)"
  using get_data_part_readable[OF list_all_py_slice[OF assms]]
  by (simp add: get_train_batch_def Let_def)

lemma get_validation_batch_readable:
  assumes "list_all (readable ds) (validation_part ds)"
  shows "get_validation_batch ds bs =
     Inr (take_rows ds (sort (py_slice (validation_part ds) (batch_ind_valid ds) (batch_ind_valid ds + bs))),
          ds\<lparr>batch_ind_valid := (if batch_ind_valid ds + bs \<ge> int (length (validation_part ds)) then 0 else batch_ind_valid ds + bs)\<rparr>)"
  using get_data_part_readable[OF list_all_py_slice[OF assms]]
  by (simp add: get_validation_batch_def Let_def)

lemma get_test_batch_readable:
  assumes "list_all (readable ds) (test_part ds)"
  shows "get_test_batch ds bs =
     Inr (take_rows ds (sort (py_slice (test_part ds) (batch_ind_test ds) (batch_ind_test ds + bs))),
          ds\<lparr>batch_ind_test := (if batch_ind_test ds + bs \<ge> int (length (test_part ds)) then 0 else batch_ind_test ds + bs)\<rparr>)"
  using get_data_part_readable[OF list_all_py_slice[OF assms]]
  by (simp add: get_test_batch_def Let_def)

lemma int_ceil_bounds:
  assumes "0 < b"
  shows "int n \<le> int_ceil (int n) (int b) * int b"
    and "0 < n \<Longrightarrow> (int_ceil (int n) (int b) - 1) * int b < int n"
    and "0 \<le> int_ceil (int n) (int b)"
proof -
  define c where "c = int_ceil (int n) (int b)"
  have c: "c = - (- int n div int b)"
    unfolding c_def int_ceil_def by (rule ceiling_divide_eq_div)
  have b: "0 < int b" using assms by simp
  have m: "- int n = (- int n div int b) * int b + (- int n) mod int b" by simp
  have r: "0 \<le> (- int n) mod int b" "(- int n) mod int b < int b"
    using b by simp_all
  have "- int n = - c * int b + (- int n) mod int b" using m c by simp
  then have e: "c * int b = int n + (- int n) mod int b" by (simp add: algebra_simps)
  show "int n \<le> int_ceil (int n) (int b) * int b"
    using e r unfolding c_def by simp
  show "(int_ceil (int n) (int b) - 1) * int b < int n" if "0 < n"
    using e r unfolding c_def by (simp add: algebra_simps)
  have "0 \<le> c * int b" using e r by simp
  then have "0 \<le> c" using b by (simp add: zero_le_mult_iff)
  then show "0 \<le> int_ceil (int n) (int b)" unfolding c_def .
qed

lemma concat_slices:
  "0 < b \<Longrightarrow> length xs \<le> m * b \<Longrightarrow>
   concat (map (\<lambda>i. take b (drop (i * b) xs)) [0..<m]) = xs"
proof (induction m arbitrary: xs)
  case 0
  then show ?case by simp
next
  case (Suc m)
  have "[0..<Suc m] = 0 # map Suc [0..<m]"
    by (simp add: upt_conv_Cons map_Suc_upt del: upt_Suc)
  then have "concat (map (\<lambda>i. take b (drop (i * b) xs)) [0..<Suc m]) =
        take b xs @ concat (map (\<lambda>i. take b (drop (i * b) (drop b xs))) [0..<m])"
    by (simp add: comp_def add.commute del: upt_Suc)
  also have "concat (map (\<lambda>i. take b (drop (i * b) (drop b xs))) [0..<m]) = drop b xs"
    using Suc.prems by (intro Suc.IH) auto
  finally show ?case by simp
qed

lemma consecutive_wrap:
  fixes S :: "int \<Rightarrow> 's" and out :: "int \<Rightarrow> 'a"
  assumes step: "\<And>c. 0 \<le> c \<Longrightarrow>
        g (S c) = Inr (out c, S (if int n \<le> c + int b then 0 else c + int b))"
  shows "0 < j \<Longrightarrow> (k + j - 1) * b < n \<Longrightarrow> n \<le> (k + j) * b \<Longrightarrow>
     consecutive j g (S (int (k * b))) = Inr (map (\<lambda>i. out (int (i * b))) [k..<k + j], S 0)"
proof (induction j arbitrary: k)
  case 0
  then show ?case by simp
next
  case (Suc j)
  show ?case
  proof (cases "j = 0")
    case True
    with Suc.prems have "int n \<le> int (k * b) + int b" by (simp add: algebra_simps flip: of_nat_add of_nat_mult)
    with True show ?thesis using step[of "int (k * b)"] by simp
  next
    case False
    have "(k + 1) * b \<le> (k + j) * b" using False by (intro mult_le_mono1) simp
    with Suc.prems have lt: "(k + 1) * b < n" by simp
    then have "\<not> int n \<le> int (k * b) + int b"
      by (simp add: algebra_simps flip: of_nat_add of_nat_mult)
    then have s: "g (S (int (k * b))) = Inr (out (int (k * b)), S (int (Suc k * b)))"
      using step[of "int (k * b)"] by (simp add: algebra_simps)
    have ih: "consecutive j g (S (int (Suc k * b))) =
        Inr (map (\<lambda>i. out (int (i * b))) [Suc k..<Suc k + j], S 0)"
      using Suc.prems False by (intro Suc.IH) auto
    have "[k..<k + Suc j] = k # [Suc k..<Suc k + j]"
      by (simp add: upt_conv_Cons del: upt_Suc)
    then show ?thesis using s ih by (simp del: upt_Suc)
  qed
qed

lemma take_rows_cong:
  "codes ds' = codes ds \<Longrightarrow> labels ds' = labels ds \<Longrightarrow> gsv_lat ds' = gsv_lat ds \<Longrightarrow>
   gsv_lng ds' = gsv_lng ds \<Longrightarrow> sat_patch ds' = sat_patch ds \<Longrightarrow>
   label_types ds' = label_types ds \<Longrightarrow> take_rows ds' rows = take_rows ds rows"
  by (simp add: take_rows_def one_hot_def)

lemma readable_cong:
  "codes ds' = codes ds \<Longrightarrow> labels ds' = labels ds \<Longrightarrow> gsv_lat ds' = gsv_lat ds \<Longrightarrow>
   gsv_lng ds' = gsv_lng ds \<Longrightarrow> readable ds' = readable ds"
  by (auto simp: readable_def fun_eq_iff)

lemma batch_rows_take:
  "0 \<le> bs \<Longrightarrow> batch_rows xs bs k = take (nat bs) (drop (k * nat bs) xs)"
  unfolding batch_rows_def
  by (subst py_slice_nonneg) (simp_all add: nat_mult_distrib nat_add_distrib)

lemma num_batches_bounds:
  assumes "1 \<le> bs"
  shows "length xs \<le> num_batches xs bs * nat bs"
    and "xs \<noteq> [] \<Longrightarrow> (num_batches xs bs - 1) * nat bs < length xs"
    and "xs \<noteq> [] \<Longrightarrow> 0 < num_batches xs bs"
proof -
  have b: "0 < nat bs" "int (nat bs) = bs" using assms by simp_all
  note cb = int_ceil_bounds[OF b(1), of "length xs", unfolded b(2)]
  have i: "int (num_batches xs bs) = int_ceil (int (length xs)) bs"
    unfolding num_batches_def using cb(3) by simp
  have "int (length xs) \<le> int (num_batches xs bs * nat bs)"
    using cb(1) i b(2) by simp
  then show le: "length xs \<le> num_batches xs bs * nat bs" by (simp only: of_nat_le_iff)
  show pos: "0 < num_batches xs bs" if "xs \<noteq> []"
    using le that by (cases "num_batches xs bs") auto
  show "(num_batches xs bs - 1) * nat bs < length xs" if "xs \<noteq> []"
  proof -
    have "int ((num_batches xs bs - 1) * nat bs) = (int_ceil (int (length xs)) bs - 1) * bs"
      using pos[OF that] i b(2) by (simp add: of_nat_diff)
    also have "\<dots> < int (length xs)" using cb(2) that by simp
    finally show ?thesis by (simp only: of_nat_less_iff)
  qed
qed

lemma full_pass_slices:
  assumes "1 \<le> bs"
  shows "concat (map (batch_rows xs bs) [0..<num_batches xs bs]) = xs"
    and "Suc k < num_batches xs bs \<Longrightarrow> length (batch_rows xs bs k) = nat bs"
    and "xs \<noteq> [] \<Longrightarrow> 0 < length (batch_rows xs bs (num_batches xs bs - 1))"
    and "length (batch_rows xs bs k) \<le> nat bs"
proof -
  have b0: "0 \<le> bs" "0 < nat bs" using assms by simp_all
  note nb = num_batches_bounds[OF assms, of xs]
  have "batch_rows xs bs = (\<lambda>i. take (nat bs) (drop (i * nat bs) xs))"
    by (rule ext) (rule batch_rows_take[OF b0(1)])
  then show "concat (map (batch_rows xs bs) [0..<num_batches xs bs]) = xs"
    using concat_slices[OF b0(2) nb(1)] by simp
  show "length (batch_rows xs bs k) = nat bs" if "Suc k < num_batches xs bs"
  proof -
    have "xs \<noteq> []" using that nb(1) by (cases xs) (auto simp: num_batches_def int_ceil_def)
    have "Suc k * nat bs \<le> (num_batches xs bs - 1) * nat bs"
      using that by (intro mult_le_mono1) simp
    with nb(2)[OF \<open>xs \<noteq> []\<close>] have "Suc k * nat bs < length xs" by simp
    then have "nat bs \<le> length xs - k * nat bs" by simp
    then show ?thesis by (simp add: batch_rows_take[OF b0(1)] min_absorb2)
  qed
  show "0 < length (batch_rows xs bs (num_batches xs bs - 1))" if "xs \<noteq> []"
    using nb(2)[OF that] b0(2) by (simp add: batch_rows_take[OF b0(1)])
  show "length (batch_rows xs bs k) \<le> nat bs"
    by (simp add: batch_rows_take[OF b0(1)])
qed

lemma train_pass:
  assumes bs: "1 \<le> bs" and ne: "train_part ds \<noteq> []" and c0: "batch_ind ds = 0"
    and rd: "list_all (readable ds) (train_part ds)"
  shows "consecutive (num_batches (train_part ds) bs) (\<lambda>d. get_train_batch d bs) ds =
     Inr (map (\<lambda>k. take_rows ds (sort (batch_rows (train_part ds) bs k)))
            [0..<num_batches (train_part ds) bs], ds)"
proof -
  let ?S = "\<lambda>c. ds\<lparr>batch_ind := c\<rparr>"
  let ?out = "\<lambda>c. take_rows ds (sort (py_slice (train_part ds) c (c + bs)))"
  let ?n = "length (train_part ds)" and ?j = "num_batches (train_part ds) bs"
  have b: "int (nat bs) = bs" using bs by simp
  have step: "get_train_batch (?S c) bs =
      Inr (?out c, ?S (if int ?n \<le> c + int (nat bs) then 0 else c + int (nat bs)))" for c
  proof -
    have "list_all (readable (?S c)) (train_part (?S c))"
      using rd by (simp add: readable_cong[of "?S c" ds])
    from get_train_batch_readable[OF this, of bs] bs show ?thesis
      by (simp add: take_rows_cong[of "?S c" ds])
  qed
  note nb = num_batches_bounds[OF bs, of "train_part ds"]
  have "consecutive ?j (\<lambda>d. get_train_batch d bs) (?S (int (0 * nat bs))) =
      Inr (map (\<lambda>i. ?out (int (i * nat bs))) [0..<0 + ?j], ?S 0)"
  proof (rule consecutive_wrap[where g = "\<lambda>d. get_train_batch d bs" and S = ?S and out = ?out
          and n = ?n and b = "nat bs" and j = ?j and k = 0])
    show "get_train_batch (?S c) bs =
      Inr (?out c, ?S (if int ?n \<le> c + int (nat bs) then 0 else c + int (nat bs)))" for c
      by (rule step)
    show "0 < ?j" by (rule nb(3)[OF ne])
    show "(0 + ?j - 1) * nat bs < ?n" using nb(2)[OF ne] by simp
    show "?n \<le> (0 + ?j) * nat bs" using nb(1) by simp
  qed
  moreover have "?S 0 = ds" using c0 by simp
  moreover have "?out (int (i * nat bs)) = take_rows ds (sort (batch_rows (train_part ds) bs i))" for i
    using bs by (simp add: batch_rows_def)
  ultimately show ?thesis by simp
qed

lemma test_pass:
  assumes bs: "1 \<le> bs" and ne: "test_part ds \<noteq> []" and c0: "batch_ind_test ds = 0"
    and rd: "list_all (readable ds) (test_part ds)"
  shows "consecutive (num_batches (test_part ds) bs) (\<lambda>d. get_test_batch d bs) ds =
     Inr (map (\<lambda>k. take_rows ds (sort (batch_rows (test_part ds) bs k)))
            [0..<num_batches (test_part ds) bs], ds)"
proof -
  let ?S = "\<lambda>c. ds\<lparr>batch_ind_test := c\<rparr>"
  let ?out = "\<lambda>c. take_rows ds (sort (py_slice (test_part ds) c (c + bs)))"
  let ?n = "length (test_part ds)" and ?j = "num_batches (test_part ds) bs"
  have b: "int (nat bs) = bs" using bs by simp
  have step: "get_test_batch (?S c) bs =
      Inr (?out c, ?S (if int ?n \<le> c + int (nat bs) then 0 else c + int (nat bs)))" for c
  proof -
    have "list_all (readable (?S c)) (test_part (?S c))"
      using rd by (simp add: readable_cong[of "?S c" ds])
    from get_test_batch_readable[OF this, of bs] bs show ?thesis
      by (simp add: take_rows_cong[of "?S c" ds])
  qed
  note nb = num_batches_bounds[OF bs, of "test_part ds"]
  have "consecutive ?j (\<lambda>d. get_test_batch d bs) (?S (int (0 * nat bs))) =
      Inr (map (\<lambda>i. ?out (int (i * nat bs))) [0..<0 + ?j], ?S 0)"
  proof (rule consecutive_wrap[where g = "\<lambda>d. get_test_batch d bs" and S = ?S and out = ?out
          and n = ?n and b = "nat bs" and j = ?j and k = 0])
    show "get_test_batch (?S c) bs =
      Inr (?out c, ?S (if int ?n \<le> c + int (nat bs) then 0 else c + int (nat bs)))" for c
      by (rule step)
    show "0 < ?j" by (rule nb(3)[OF ne])
    show "(0 + ?j - 1) * nat bs < ?n" using nb(2)[OF ne] by simp
    show "?n \<le> (0 + ?j) * nat bs" using nb(1) by simp
  qed
  moreover have "?S 0 = ds" using c0 by simp
  moreover have "?out (int (i * nat bs)) = take_rows ds (sort (batch_rows (test_part ds) bs i))" for i
    using bs by (simp add: batch_rows_def)
  ultimately show ?thesis by simp
qed

lemma mset_concat_sort:
  "mset (concat (map (\<lambda>k. sort (f k)) ks)) = mset (concat (map f ks))"
  by (induction ks) simp_all


lemma int_ceil_div: "int_ceil a b = - ((- a) div b)"
  unfolding int_ceil_def by (rule ceiling_divide_eq_div)

lemma int_trunc_nonneg: "0 \<le> a \<Longrightarrow> 0 < b \<Longrightarrow> int_trunc a b = a div b"
  by (simp add: int_trunc_def Let_def floor_divide_of_int_eq)

lemma demo_split_fields:
  "train_part demo_split = [4, 0, 8, 2, 6]" "test_part demo_split = [7, 1, 3]"
  "validation_part demo_split = [5]" "batch_ind demo_split = 0"
  "batch_ind_valid demo_split = 0" "batch_ind_test demo_split = 0"
  "labels demo_split = [0, 0, 0, 1, 1, 1, 2, 2, 2]" "label_types demo_split = [0, 1, 2]"
  by (simp_all add: demo_split_def demo_def Dataset_init_def map_labels_def)

lemma demo_split_lengths:
  "length (codes demo_split) = 9" "length (gsv_lat demo_split) = 9"
  "length (gsv_lng demo_split) = 9" "length (vmap demo_split) = 9"
  "length (labels demo_split) = 9"
  by (simp_all add: demo_split_def demo_def Dataset_init_def map_labels_def)

lemma demo_split_readable: "readable demo_split r \<longleftrightarrow> r < 9"
  by (simp add: readable_def demo_split_lengths)

lemma demo_fields:
  "train_part demo = []" "test_part demo = []" "validation_part demo = []"
  "batch_ind demo = 0" "batch_ind_valid demo = 0" "batch_ind_test demo = 0"
  "label_types demo = [0, 1, 2]"
  by (simp_all add: demo_def Dataset_init_def map_labels_def)

lemma demo_lengths:
  "length (codes demo) = 9" "length (gsv_lat demo) = 9"
  "length (gsv_lng demo) = 9" "length (vmap demo) = 9"
  "length (labels demo) = 9"
  by (simp_all add: demo_def Dataset_init_def map_labels_def)

lemma demo_readable: "readable demo r \<longleftrightarrow> r < 9"
  by (simp add: readable_def demo_lengths)

lemma demo_codes:
  "codes demo =
     [([0], [0], [0], [0]), ([1], [1], [1], [1]), ([2], [2], [2], [2]),
      ([3], [3], [3], [3]), ([4], [4], [4], [4]), ([5], [5], [5], [5]),
      ([6], [6], [6], [6]), ([7], [7], [7], [7]), ([8], [8], [8], [8])]"
  by (simp add: demo_def Dataset_init_def Let_def)

lemma take_rows_Nil:
  "take_rows ds [] = \<lparr>d1 = [], d2 = [], d3 = [], d4 = [], img = [], l = []\<rparr>"
  by (simp add: take_rows_def)

lemma Dataset_init_fresh:
  fixes D :: "'p dataset"
  assumes "D = Dataset_init features raw_labels ids lname craw lat lng sat_image patch psize"
  shows "train_part D = []" "test_part D = []" "validation_part D = []"
    "batch_ind D = 0" "batch_ind_valid D = 0" "batch_ind_test D = 0"
  using assms by (simp_all add: Dataset_init_def Let_def)

lemma yield_all_Inr:
  "(\<And>n. n \<in> set ns \<Longrightarrow> body n = Inr (f n)) \<Longrightarrow> yield_all body ns = (map f ns, None)"
  by (induction ns) simp_all

lemma num_batches_Nil: "num_batches [] bs = 0"
  by (simp add: num_batches_def int_ceil_def)

lemma batch_rows_alt:
  "py_slice part (int n * bn) ((int n + 1) * bn) = batch_rows part bn n"
  by (simp add: batch_rows_def algebra_simps)

lemma test_iterator_readable:
  assumes "batch_num \<noteq> 0" and "list_all (readable ds) (test_part ds)"
    and "list_all (\<lambda>r. r < length (vmap ds)) (test_part ds)"
  shows "test_iterator ds batch_num =
     (map (\<lambda>k. (take_rows ds (sort (batch_rows (test_part ds) batch_num k)),
                 map (\<lambda>r. vmap ds ! r) (sort (batch_rows (test_part ds) batch_num k))))
        [0..<num_batches (test_part ds) batch_num], None)"
proof -
  have v: "list_all (\<lambda>r. r < length (vmap ds)) (sort (batch_rows (test_part ds) batch_num k))" for k
    using list_all_py_slice[OF assms(3)] by (simp add: batch_rows_def list_all_iff)
  have g: "get_data_part ds (batch_rows (test_part ds) batch_num k) =
      Inr (take_rows ds (sort (batch_rows (test_part ds) batch_num k)))" for k
    unfolding batch_rows_def
    by (rule get_data_part_readable[OF list_all_py_slice[OF assms(2)]])
  show ?thesis
    unfolding test_iterator_def Let_def batch_rows_alt num_batches_def[symmetric]
    using assms(1) by (simp add: g v yield_all_Inr)
qed

lemma validation_iterator_readable:
  assumes "batch_num \<noteq> 0" and "list_all (readable ds) (validation_part ds)"
  shows "validation_iterator ds batch_num =
     (map (\<lambda>k. take_rows ds (sort (batch_rows (validation_part ds) batch_num k)))
        [0..<num_batches (validation_part ds) batch_num], None)"
proof -
  have g: "get_data_part ds (batch_rows (validation_part ds) batch_num k) =
      Inr (take_rows ds (sort (batch_rows (validation_part ds) batch_num k)))" for k
    unfolding batch_rows_def
    by (rule get_data_part_readable[OF list_all_py_slice[OF assms(2)]])
  show ?thesis
    unfolding validation_iterator_def Let_def batch_rows_alt num_batches_def[symmetric]
    using assms(1) by (simp add: g yield_all_Inr)
qed

lemma get_data_part_cursors:
  "get_data_part (ds\<lparr>batch_ind := c1, batch_ind_valid := c2, batch_ind_test := c3\<rparr>) rows =
   get_data_part ds rows"
proof -
  let ?d = "ds\<lparr>batch_ind := c1, batch_ind_valid := c2, batch_ind_test := c3\<rparr>"
  have "readable ?d = readable ds" by (rule readable_cong) simp_all
  moreover have "take_rows ?d (sort rows) = take_rows ds (sort rows)"
    by (rule take_rows_cong) simp_all
  ultimately show ?thesis by (simp add: get_data_part_def Let_def)
qed

lemma test_iterator_cursors:
  "test_iterator (ds\<lparr>batch_ind := c1, batch_ind_valid := c2, batch_ind_test := c3\<rparr>) batch_num =
   test_iterator ds batch_num"
  by (simp add: test_iterator_def get_data_part_cursors Let_def cong: sum.case_cong if_cong)

lemma validation_iterator_cursors:
  "validation_iterator (ds\<lparr>batch_ind := c1, batch_ind_valid := c2, batch_ind_test := c3\<rparr>)
     batch_num = validation_iterator ds batch_num"
  by (simp add: validation_iterator_def get_data_part_cursors Let_def)

lemma demo_split_vmap:
  "vmap demo_split =
     [(''a'', ''p'', ''o'', ''l''), (''b'', ''p'', ''o'', ''l''), (''c'', ''p'', ''o'', ''l''),
      (''d'', ''p'', ''o'', ''l''), (''e'', ''p'', ''o'', ''l''), (''f'', ''p'', ''o'', ''l''),
      (''g'', ''p'', ''o'', ''l''), (''h'', ''p'', ''o'', ''l''), (''i'', ''p'', ''o'', ''l'')]"
  "label_name demo_split = ''decile''"
  by (simp_all add: demo_split_def demo_def Dataset_init_def Let_def)

lemma pred_matrix_ok:
  assumes "list_all (\<lambda>r. r < length (vmap ds) \<and> r < length (labels ds)) part"
    and "length preds = length part"
  shows "pred_matrix ds part preds =
     Inr \<lparr>columns = [''img_id'', ''pcd'', ''oa11'', ''lsoa11'', label_name ds, ''predicted''],
          lines = map (\<lambda>(r, p). [Str (fst (vmap ds ! r)), Str (fst (snd (vmap ds ! r))),
                          Str (fst (snd (snd (vmap ds ! r)))), Str (snd (snd (snd (vmap ds ! r)))),
                          Num (labels ds ! r), Num p])
                    (zip (sort part) preds)\<rparr>"
  using assms by (simp add: pred_matrix_def list_all_iff case_prod_unfold)















lemma suffix_names:
  "pf @ ''_train'' \<noteq> pf @ ''_validation''" "pf @ ''_train'' \<noteq> pf @ ''_test''"
  "pf @ ''_validation'' \<noteq> pf @ ''_test''" "pf @ ''_validation'' \<noteq> pf @ ''_train''"
  "pf @ ''_test'' \<noteq> pf @ ''_train''" "pf @ ''_test'' \<noteq> pf @ ''_validation''"
  by simp_all

lemma tvt_load:
  fixes ds :: "'p dataset"
  assumes "part_gen \<noteq> 1"
    and "fs (pf @ ''_train'') = Some (Pickle_part tr)"
    and "fs (pf @ ''_validation'') = Some (Pickle_part va)"
    and "fs (pf @ ''_test'') = Some (Pickle_part te)"
  shows "Dataset_TVT_pick_label pv perm ds fs part_gen pf ts vs ps seed =
     (if ps < 1 then
        (case decimate_partition_stratified perm tr (labels ds) ps None of
           Inl e \<Rightarrow> Inl e
         | Inr (tr', rest) \<Rightarrow>
             Inr (ds\<lparr>validation_part := va, test_part := te, train_part := tr'\<rparr>, fs))
      else Inr (ds\<lparr>validation_part := va, test_part := te, train_part := tr\<rparr>, fs))"
  using assms by (simp add: Dataset_TVT_pick_label_def load_part_def Let_def)

lemma tvt_gen:
  fixes ds :: "'p dataset"
  assumes "Dataset_TVT_pick_label pv perm ds fs 1 pf ts vs ps seed = Inr (ds1, fs1)"
  shows "\<exists>tr. fs1 = fs(pf @ ''_train'' \<mapsto> Pickle_part tr,
                      pf @ ''_validation'' \<mapsto> Pickle_part (validation_part ds1),
                      pf @ ''_test'' \<mapsto> Pickle_part (test_part ds1)) \<and>
              (1 \<le> ps \<longrightarrow> train_part ds1 = tr)"
  using assms
  by (auto simp: Dataset_TVT_pick_label_def Let_def split: sum.splits prod.splits if_splits)

lemma tt_load:
  fixes ds :: "'p dataset"
  assumes "part_gen \<noteq> 1"
    and "fs (pf @ ''_train'') = Some (Pickle_part tr)"
    and "fs (pf @ ''_test'') = Some (Pickle_part te)"
  shows "Dataset_TT_pick_label pst perm ds fs part_gen pf ts ps seed =
     (if ps < 1 then
        (case decimate_partition_stratified perm tr (labels ds) ps None of
           Inl e \<Rightarrow> Inl e
         | Inr (tr', rest) \<Rightarrow> Inr (ds\<lparr>test_part := te, train_part := tr'\<rparr>, fs))
      else Inr (ds\<lparr>test_part := te, train_part := tr\<rparr>, fs))"
  using assms by (simp add: Dataset_TT_pick_label_def load_part_def Let_def)

lemma tt_gen:
  fixes ds :: "'p dataset"
  assumes "Dataset_TT_pick_label pst perm ds fs 1 pf ts ps seed = Inr (ds1, fs1)"
  shows "\<exists>tr. fs1 = fs(pf @ ''_train'' \<mapsto> Pickle_part tr,
                      pf @ ''_test'' \<mapsto> Pickle_part (test_part ds1)) \<and>
              (1 \<le> ps \<longrightarrow> train_part ds1 = tr)"
  using assms
  by (auto simp: Dataset_TT_pick_label_def Let_def split: sum.splits prod.splits if_splits)

lemma byclass_load:
  fixes ds :: "'p dataset"
  assumes "part_gen \<noteq> 1"
    and "fs (pf @ ''_train'') = Some (Pickle_part tr)"
    and "fs (pf @ ''_test'') = Some (Pickle_part te)"
  shows "Dataset_TT_byclass_pick_label pbc perm ds fs part_gen pf ts ps seed =
     (if ps < 1 then
        (case decimate_partition_stratified perm tr (labels ds) ps None of
           Inl e \<Rightarrow> Inl e
         | Inr (tr', rest) \<Rightarrow> Inr (ds\<lparr>test_part := te, train_part := tr'\<rparr>, fs))
      else Inr (ds\<lparr>test_part := te, train_part := tr\<rparr>, fs))"
  using assms by (simp add: Dataset_TT_byclass_pick_label_def load_part_def Let_def)

lemma byclass_gen:
  fixes ds :: "'p dataset"
  assumes "Dataset_TT_byclass_pick_label pbc perm ds fs 1 pf ts ps seed = Inr (ds1, fs1)"
  shows "\<exists>tr. fs1 = fs(pf @ ''_train'' \<mapsto> Pickle_part tr,
                      pf @ ''_test'' \<mapsto> Pickle_part (test_part ds1)) \<and>
              (1 \<le> ps \<longrightarrow> train_part ds1 = tr)"
  using assms
  by (auto simp: Dataset_TT_byclass_pick_label_def Let_def split: sum.splits prod.splits if_splits)

lemma cv_load:
  fixes ds :: "'p dataset"
  assumes "part_gen \<noteq> 1" and "fs pf = Some (Pickle_folds kp)"
  shows "Dataset_CrossValidation_pick_label kf perm ds fs part_gen pf kn i vsize seed =
     (case get_partition_stratified_kfold i kp of
        Inl e \<Rightarrow> Inl e
      | Inr (train0, test) \<Rightarrow>
          if vsize > 0 then
            (case decimate_partition_stratified perm train0 (labels ds) (1 - vsize) (clabels ds) of
               Inl e \<Rightarrow> Inl e
             | Inr (tr, va) \<Rightarrow>
                 Inr (ds\<lparr>kpartitions := kp, test_part := test, train_part := tr,
                         validation_part := va\<rparr>, fs))
          else Inr (ds\<lparr>kpartitions := kp, test_part := test, train_part := train0\<rparr>, fs))"
  using assms
  by (simp add: Dataset_CrossValidation_pick_label_def load_folds_def Let_def
      split: sum.splits prod.splits)

lemma cv_gen:
  fixes ds :: "'p dataset"
  assumes "Dataset_CrossValidation_pick_label kf perm ds fs 1 pf kn i vsize seed = Inr (ds1, fs1)"
  shows "fs1 = fs(pf \<mapsto> Pickle_folds (kpartitions ds1)) \<and>
         (\<exists>train0. get_partition_stratified_kfold i (kpartitions ds1) = Inr (train0, test_part ds1) \<and>
             (vsize \<le> 0 \<longrightarrow> train_part ds1 = train0))"
  using assms
  by (auto simp: Dataset_CrossValidation_pick_label_def Let_def
      split: sum.splits prod.splits if_splits)

lemma demo_labels: "labels demo = [0, 0, 0, 1, 1, 1, 2, 2, 2]" "clabels demo = None"
  "label_test demo = []"
  by (simp_all add: demo_def Dataset_init_def map_labels_def)

lemma demo_train_classes:
  "sort (remdups (map (\<lambda>r. labels demo ! r) [0, 1, 3, 4, 6, 7])) = [0, 1, 2]"
  by (simp add: demo_labels)

lemma demo_train_units:
  "class_units [0, 1, 3, 4, 6, 7] (labels demo) None 0 = [[0], [1]]"
  "class_units [0, 1, 3, 4, 6, 7] (labels demo) None 1 = [[3], [4]]"
  "class_units [0, 1, 3, 4, 6, 7] (labels demo) None 2 = [[6], [7]]"
  by (simp_all add: class_units_def demo_labels)

lemma demo_train_counts:
  "length (filter (\<lambda>r. labels demo ! r = 0) [0, 1, 3, 4, 6, 7]) = 2"
  "length (filter (\<lambda>r. labels demo ! r = 1) [0, 1, 3, 4, 6, 7]) = 2"
  "length (filter (\<lambda>r. labels demo ! r = 2) [0, 1, 3, 4, 6, 7]) = 2"
  by (simp_all add: demo_labels)

lemma round_half_of_two: "nat (round (1 / 2 * rat_of_nat 2)) = 1"
  by simp

lemma demo_train_in_range: 
  "list_all (\<lambda>r. r < length (labels demo)) [0, 1, 3, 4, 6, 7]"
  by (simp add: demo_labels)

lemma keep_one_of_two: "keep_units 1 [[a], [b]] = ([[a]], [[b]])"
  by simp

lemma enumerate_three: "enumerate 0 [0, 1, 2 :: int] = [(0, 0), (1, 1), (2, 2)]" by simp

lemma uniform_groups_None: "uniform_groups part labs None"
  by (simp add: uniform_groups_def)

lemma demo_decimate:
  "decimate_partition_stratified (\<lambda>k. id) [0, 1, 3, 4, 6, 7] (labels demo) (1 / 2) None =
     Inr ([0, 3, 6], [1, 4, 7])"
  "decimate_partition_stratified (\<lambda>k. rev) [0, 1, 3, 4, 6, 7] (labels demo) (1 / 2) None =
     Inr ([1, 4, 7], [0, 3, 6])"
proof -
  show "decimate_partition_stratified (\<lambda>k. id) [0, 1, 3, 4, 6, 7] (labels demo) (1 / 2) None =
     Inr ([0, 3, 6], [1, 4, 7])"
    unfolding decimate_partition_stratified_def Let_def
    apply (simp only: demo_train_classes demo_train_in_range uniform_groups_None)
    apply (simp only: enumerate_three list.map prod.case demo_train_units demo_train_counts round_half_of_two id_apply keep_one_of_two)
    apply simp
    done
  show "decimate_partition_stratified (\<lambda>k. rev) [0, 1, 3, 4, 6, 7] (labels demo) (1 / 2) None =
     Inr ([1, 4, 7], [0, 3, 6])"
    unfolding decimate_partition_stratified_def Let_def
    apply (simp only: demo_train_classes demo_train_in_range uniform_groups_None)
    apply (simp only: enumerate_three list.map prod.case demo_train_units demo_train_counts round_half_of_two rev.simps append.simps keep_one_of_two)
    apply simp
    done
qed

lemma tt_pick_label_validation:
  fixes ds :: "'p dataset"
  shows "Dataset_TT_pick_label pst perm ds fs part_gen pf ts ps seed = Inr (ds1, fs1) \<Longrightarrow>
     validation_part ds1 = validation_part ds"
    and "Dataset_TT_byclass_pick_label pbc perm ds fs part_gen pf ts ps seed = Inr (ds1, fs1) \<Longrightarrow>
     validation_part ds1 = validation_part ds"
  by (auto simp: Dataset_TT_pick_label_def Dataset_TT_byclass_pick_label_def Let_def
      split: sum.splits prod.splits if_splits)

lemma pred_matrix_Nil:
  "pred_matrix ds [] preds =
     (if preds = [] then
        Inr \<lparr>columns = [''img_id'', ''pcd'', ''oa11'', ''lsoa11'', label_name ds, ''predicted''],
             lines = []\<rparr>
      else Inl ValueError)"
  by (simp add: pred_matrix_def)

lemma tt_write_preds_validation_no_partition:
  fixes ds :: "'p dataset"
  assumes "validation_part ds = []" and "preds \<noteq> []"
  shows "Dataset_TT_write_preds_validation ds preds fname fs = Inl ValueError"
    and "Dataset_TT_byclass_write_preds_validation ds preds fname fs = Inl ValueError"
  using assms
  by (simp_all add: Dataset_TT_write_preds_validation_def
      Dataset_TT_byclass_write_preds_validation_def pred_matrix_Nil)

lemma cursor_step_range:
  fixes c bs :: int
  assumes "0 \<le> bs" "0 \<le> c"
  shows "0 \<le> (if int n \<le> c + bs then 0 else c + bs)"
    and "0 < n \<Longrightarrow> (if int n \<le> c + bs then 0 else c + bs) < int n"
  using assms by auto

lemma take_rows_fields:
  "d1 (take_rows ds rows) =
     map (\<lambda>r. map (\<lambda>v. (v - (- 524 / 100)) / (817 / 100)) (fst (codes ds ! r))) rows"
  "d2 (take_rows ds rows) =
     map (\<lambda>r. map (\<lambda>v. (v - (- 524 / 100)) / (817 / 100)) (fst (snd (codes ds ! r)))) rows"
  "d3 (take_rows ds rows) =
     map (\<lambda>r. map (\<lambda>v. (v - (- 524 / 100)) / (817 / 100)) (fst (snd (snd (codes ds ! r))))) rows"
  "d4 (take_rows ds rows) =
     map (\<lambda>r. map (\<lambda>v. (v - (- 524 / 100)) / (817 / 100)) (snd (snd (snd (codes ds ! r))))) rows"
  "img (take_rows ds rows) = map (\<lambda>r. sat_patch ds (gsv_lat ds ! r) (gsv_lng ds ! r)) rows"
  "l (take_rows ds rows) =
     map (\<lambda>r. map (\<lambda>t. if labels ds ! r = t then 1 else 0) (label_types ds)) rows"
  by (simp_all add: take_rows_def normalize_features_def VGGM_def VGGS_def one_hot_def)

lemma num_batches_ceiling:
  "num_batches part bs = nat \<lceil>rat_of_nat (length part) / rat_of_int bs\<rceil>"
  by (simp add: num_batches_def int_ceil_def)

lemma pass_contents:
  fixes ds :: "'p dataset" and part :: "nat list"
  assumes bs: "1 \<le> bs"
  defines "N \<equiv> nat \<lceil>rat_of_nat (length part) / rat_of_int bs\<rceil>"
  defines "batches \<equiv> map (\<lambda>k. take_rows ds (sort (batch_rows part bs k))) [0..<num_batches part bs]"
  shows "length batches = N"
    and "\<forall>k < N. \<forall>rows. rows = sort (take (nat bs) (drop (k * nat bs) part)) \<longrightarrow>
           d1 (batches ! k) =
             map (\<lambda>r. map (\<lambda>v. (v - (- 524 / 100)) / (817 / 100)) (fst (codes ds ! r))) rows \<and>
           d2 (batches ! k) =
             map (\<lambda>r. map (\<lambda>v. (v - (- 524 / 100)) / (817 / 100)) (fst (snd (codes ds ! r)))) rows \<and>
           d3 (batches ! k) =
             map (\<lambda>r. map (\<lambda>v. (v - (- 524 / 100)) / (817 / 100))
                         (fst (snd (snd (codes ds ! r))))) rows \<and>
           d4 (batches ! k) =
             map (\<lambda>r. map (\<lambda>v. (v - (- 524 / 100)) / (817 / 100))
                         (snd (snd (snd (codes ds ! r))))) rows \<and>
           img (batches ! k) = map (\<lambda>r. sat_patch ds (gsv_lat ds ! r) (gsv_lng ds ! r)) rows \<and>
           l (batches ! k) =
             map (\<lambda>r. map (\<lambda>t. if labels ds ! r = t then 1 else 0) (label_types ds)) rows \<and>
           (if Suc k < N then length rows = nat bs
            else 0 < length rows \<and> length rows \<le> nat bs)"
    and "concat (map (\<lambda>k. take (nat bs) (drop (k * nat bs) part)) [0..<N]) = part"
proof -
  have b0: "0 \<le> bs" using bs by simp
  have N: "N = num_batches part bs" by (simp add: N_def num_batches_ceiling)
  note fp = full_pass_slices[OF bs, where xs = part]
  have br: "batch_rows part bs k = take (nat bs) (drop (k * nat bs) part)" for k
    by (rule batch_rows_take[OF b0])
  show "length batches = N" by (simp add: batches_def N)
  show "concat (map (\<lambda>k. take (nat bs) (drop (k * nat bs) part)) [0..<N]) = part"
  proof -
    have "batch_rows part bs = (\<lambda>k. take (nat bs) (drop (k * nat bs) part))"
      by (rule ext) (rule br)
    with fp(1) show ?thesis by (simp add: N)
  qed
  show "\<forall>k < N. \<forall>rows. rows = sort (take (nat bs) (drop (k * nat bs) part)) \<longrightarrow>
           d1 (batches ! k) =
             map (\<lambda>r. map (\<lambda>v. (v - (- 524 / 100)) / (817 / 100)) (fst (codes ds ! r))) rows \<and>
           d2 (batches ! k) =
             map (\<lambda>r. map (\<lambda>v. (v - (- 524 / 100)) / (817 / 100)) (fst (snd (codes ds ! r)))) rows \<and>
           d3 (batches ! k) =
             map (\<lambda>r. map (\<lambda>v. (v - (- 524 / 100)) / (817 / 100))
                         (fst (snd (snd (codes ds ! r))))) rows \<and>
           d4 (batches ! k) =
             map (\<lambda>r. map (\<lambda>v. (v - (- 524 / 100)) / (817 / 100))
                         (snd (snd (snd (codes ds ! r))))) rows \<and>
           img (batches ! k) = map (\<lambda>r. sat_patch ds (gsv_lat ds ! r) (gsv_lng ds ! r)) rows \<and>
           l (batches ! k) =
             map (\<lambda>r. map (\<lambda>t. if labels ds ! r = t then 1 else 0) (label_types ds)) rows \<and>
           (if Suc k < N then length rows = nat bs
            else 0 < length rows \<and> length rows \<le> nat bs)"
  proof (intro allI impI)
    fix k rows
    assume k: "k < N" and rows: "rows = sort (take (nat bs) (drop (k * nat bs) part))"
    have ne: "part \<noteq> []" using k N by (auto simp: num_batches_Nil)
    have bk: "batches ! k = take_rows ds rows"
      using k by (simp add: batches_def N rows br)
    have len: "if Suc k < N then length rows = nat bs
            else 0 < length rows \<and> length rows \<le> nat bs"
    proof (cases "Suc k < N")
      case True
      then show ?thesis using fp(2)[of k] by (simp add: N rows br)
    next
      case False
      with k have "k = num_batches part bs - 1" by (simp add: N)
      then show ?thesis using False fp(3)[OF ne] fp(4)[of k] by (simp add: N rows br)
    qed
    show "d1 (batches ! k) =
             map (\<lambda>r. map (\<lambda>v. (v - (- 524 / 100)) / (817 / 100)) (fst (codes ds ! r))) rows \<and>
           d2 (batches ! k) =
             map (\<lambda>r. map (\<lambda>v. (v - (- 524 / 100)) / (817 / 100)) (fst (snd (codes ds ! r)))) rows \<and>
           d3 (batches ! k) =
             map (\<lambda>r. map (\<lambda>v. (v - (- 524 / 100)) / (817 / 100))
                         (fst (snd (snd (codes ds ! r))))) rows \<and>
           d4 (batches ! k) =
             map (\<lambda>r. map (\<lambda>v. (v - (- 524 / 100)) / (817 / 100))
                         (snd (snd (snd (codes ds ! r))))) rows \<and>
           img (batches ! k) = map (\<lambda>r. sat_patch ds (gsv_lat ds ! r) (gsv_lng ds ! r)) rows \<and>
           l (batches ! k) =
             map (\<lambda>r. map (\<lambda>t. if labels ds ! r = t then 1 else 0) (label_types ds)) rows \<and>
           (if Suc k < N then length rows = nat bs
            else 0 < length rows \<and> length rows \<le> nat bs)"
      unfolding bk take_rows_fields using len by simp
  qed
qed

lemma demo_split_storage:
  "codes demo_split =
     [([0], [0], [0], [0]), ([1], [1], [1], [1]), ([2], [2], [2], [2]),
      ([3], [3], [3], [3]), ([4], [4], [4], [4]), ([5], [5], [5], [5]),
      ([6], [6], [6], [6]), ([7], [7], [7], [7]), ([8], [8], [8], [8])]"
  "gsv_lat demo_split = [0, 0, 0, 0, 0, 0, 0, 0, 0]"
  "gsv_lng demo_split = [0, 0, 0, 0, 0, 0, 0, 0, 0]"
  "sat_patch demo_split = (\<lambda>lat lng. 0)"
  by (simp_all add: demo_split_def demo_def Dataset_init_def Let_def)

lemma demo_split_rows:
  "take_rows demo_split [0, 4] =
     \<lparr>d1 = [[524 / 817], [924 / 817]], d2 = [[524 / 817], [924 / 817]],
      d3 = [[524 / 817], [924 / 817]], d4 = [[524 / 817], [924 / 817]],
      img = [0, 0], l = [[1, 0, 0], [0, 1, 0]]\<rparr>"
  "take_rows demo_split [2, 8] =
     \<lparr>d1 = [[724 / 817], [1324 / 817]], d2 = [[724 / 817], [1324 / 817]],
      d3 = [[724 / 817], [1324 / 817]], d4 = [[724 / 817], [1324 / 817]],
      img = [0, 0], l = [[1, 0, 0], [0, 0, 1]]\<rparr>"
  "take_rows demo_split [6] =
     \<lparr>d1 = [[1124 / 817]], d2 = [[1124 / 817]], d3 = [[1124 / 817]], d4 = [[1124 / 817]],
      img = [0], l = [[0, 0, 1]]\<rparr>"
  "take_rows demo_split [1, 7] =
     \<lparr>d1 = [[624 / 817], [1224 / 817]], d2 = [[624 / 817], [1224 / 817]],
      d3 = [[624 / 817], [1224 / 817]], d4 = [[624 / 817], [1224 / 817]],
      img = [0, 0], l = [[1, 0, 0], [0, 0, 1]]\<rparr>"
  "take_rows demo_split [3] =
     \<lparr>d1 = [[824 / 817]], d2 = [[824 / 817]], d3 = [[824 / 817]], d4 = [[824 / 817]],
      img = [0], l = [[0, 1, 0]]\<rparr>"
  "take_rows demo_split [5] =
     \<lparr>d1 = [[1024 / 817]], d2 = [[1024 / 817]], d3 = [[1024 / 817]], d4 = [[1024 / 817]],
      img = [0], l = [[0, 1, 0]]\<rparr>"
  by (simp_all add: take_rows_def demo_split_storage demo_split_fields(7,8) one_hot_def
      normalize_features_def VGGM_def VGGS_def)

lemma demo_storage:
  "codes demo =
     [([0], [0], [0], [0]), ([1], [1], [1], [1]), ([2], [2], [2], [2]),
      ([3], [3], [3], [3]), ([4], [4], [4], [4]), ([5], [5], [5], [5]),
      ([6], [6], [6], [6]), ([7], [7], [7], [7]), ([8], [8], [8], [8])]"
  "gsv_lat demo = [0, 0, 0, 0, 0, 0, 0, 0, 0]"
  "gsv_lng demo = [0, 0, 0, 0, 0, 0, 0, 0, 0]"
  "sat_patch demo = (\<lambda>lat lng. 0)"
  "labels demo = [0, 0, 0, 1, 1, 1, 2, 2, 2]"
  by (simp_all add: demo_def Dataset_init_def Let_def map_labels_def)

lemma demo_rows_0_2:
  "take_rows demo [0, 2] =
     \<lparr>d1 = [[524 / 817], [724 / 817]], d2 = [[524 / 817], [724 / 817]],
      d3 = [[524 / 817], [724 / 817]], d4 = [[524 / 817], [724 / 817]],
      img = [0, 0], l = [[1, 0, 0], [1, 0, 0]]\<rparr>"
  by (simp add: take_rows_def demo_storage demo_fields(7) one_hot_def
      normalize_features_def VGGM_def VGGS_def)

lemma get_data_part_no_state_error: "get_data_part ds rows \<noteq> Inl StateError"
  by (simp add: get_data_part_def Let_def)

lemma getters_no_state_error:
  "get_train_batch ds bs \<noteq> Inl StateError"
  "get_validation_batch ds bs \<noteq> Inl StateError"
  "get_test_batch ds bs \<noteq> Inl StateError"
  using get_data_part_no_state_error[of ds]
  by (auto simp: get_train_batch_def get_validation_batch_def get_test_batch_def Let_def
      split: sum.splits)

section \<open>Sequential batches cover the partition\<close>

text \<open>
  Claim C1. Let the train partition be a non-empty list of distinct readable indices, the
  batch size at least 1 and the train cursor 0, and let \<open>N = ceil(|train_part| / batch_size)\<close>.
  Then \<open>N\<close> consecutive calls of \<^verbatim>\<open>get_train_batch\<close> all return. The \<open>k\<close>-th batch holds, row
  by row, the data of the indices of the \<open>k\<close>-th slice
  \<^verbatim>\<open>train_part[k*batch_size : (k+1)*batch_size]\<close> in ascending order: the four normalised
  views \<open>(codes[r, j] - (-5.24)) / 8.17\<close>, the patch at the coordinates of \<open>r\<close>, and the
  one-hot row of the label of \<open>r\<close> over the label types. The slices concatenate to the
  partition, so the batches together hold every sample of the partition exactly once; every
  batch but the last has \<open>batch_size\<close> rows, and the last has between 1 and \<open>batch_size\<close>.
  The dataset after the last call is the dataset before the first: the cursor is 0 again and
  the next call returns the first batch again. The same holds for \<^verbatim>\<open>get_test_batch\<close> and
  the test partition.
\<close>

theorem batch_cursor_wrap:
  fixes ds :: "'p dataset"
  assumes "1 \<le> batch_size"
  shows
    "(train_part ds \<noteq> [] \<and> distinct (train_part ds) \<and> batch_ind ds = 0 \<and>
      list_all (readable ds) (train_part ds) \<longrightarrow>
        (\<exists>batches N.
          N = nat \<lceil>rat_of_nat (length (train_part ds)) / rat_of_int batch_size\<rceil> \<and>
          consecutive N (\<lambda>d. get_train_batch d batch_size) ds = Inr (batches, ds) \<and>
          length batches = N \<and>
          concat (map (\<lambda>k. take (nat batch_size) (drop (k * nat batch_size) (train_part ds))) [0..<N]) =
            train_part ds \<and>
          (\<forall>k < N. \<forall>rows. rows = sort (take (nat batch_size) (drop (k * nat batch_size) (train_part ds))) \<longrightarrow>
           d1 (batches ! k) =
             map (\<lambda>r. map (\<lambda>v. (v - (- 524 / 100)) / (817 / 100)) (fst (codes ds ! r))) rows \<and>
           d2 (batches ! k) =
             map (\<lambda>r. map (\<lambda>v. (v - (- 524 / 100)) / (817 / 100)) (fst (snd (codes ds ! r)))) rows \<and>
           d3 (batches ! k) =
             map (\<lambda>r. map (\<lambda>v. (v - (- 524 / 100)) / (817 / 100))
                         (fst (snd (snd (codes ds ! r))))) rows \<and>
           d4 (batches ! k) =
             map (\<lambda>r. map (\<lambda>v. (v - (- 524 / 100)) / (817 / 100))
                         (snd (snd (snd (codes ds ! r))))) rows \<and>
           img (batches ! k) = map (\<lambda>r. sat_patch ds (gsv_lat ds ! r) (gsv_lng ds ! r)) rows \<and>
           l (batches ! k) =
             map (\<lambda>r. map (\<lambda>t. if labels ds ! r = t then 1 else 0) (label_types ds)) rows \<and>
           (if Suc k < N then length rows = nat batch_size
            else 0 < length rows \<and> length rows \<le> nat batch_size)))) \<and>
     (test_part ds \<noteq> [] \<and> distinct (test_part ds) \<and> batch_ind_test ds = 0 \<and>
      list_all (readable ds) (test_part ds) \<longrightarrow>
        (\<exists>batches N.
          N = nat \<lceil>rat_of_nat (length (test_part ds)) / rat_of_int batch_size\<rceil> \<and>
          consecutive N (\<lambda>d. get_test_batch d batch_size) ds = Inr (batches, ds) \<and>
          length batches = N \<and>
          concat (map (\<lambda>k. take (nat batch_size) (drop (k * nat batch_size) (test_part ds))) [0..<N]) =
            test_part ds \<and>
          (\<forall>k < N. \<forall>rows. rows = sort (take (nat batch_size) (drop (k * nat batch_size) (test_part ds))) \<longrightarrow>
           d1 (batches ! k) =
             map (\<lambda>r. map (\<lambda>v. (v - (- 524 / 100)) / (817 / 100)) (fst (codes ds ! r))) rows \<and>
           d2 (batches ! k) =
             map (\<lambda>r. map (\<lambda>v. (v - (- 524 / 100)) / (817 / 100)) (fst (snd (codes ds ! r)))) rows \<and>
           d3 (batches ! k) =
             map (\<lambda>r. map (\<lambda>v. (v - (- 524 / 100)) / (817 / 100))
                         (fst (snd (snd (codes ds ! r))))) rows \<and>
           d4 (batches ! k) =
             map (\<lambda>r. map (\<lambda>v. (v - (- 524 / 100)) / (817 / 100))
                         (snd (snd (snd (codes ds ! r))))) rows \<and>
           img (batches ! k) = map (\<lambda>r. sat_patch ds (gsv_lat ds ! r) (gsv_lng ds ! r)) rows \<and>
           l (batches ! k) =
             map (\<lambda>r. map (\<lambda>t. if labels ds ! r = t then 1 else 0) (label_types ds)) rows \<and>
           (if Suc k < N then length rows = nat batch_size
            else 0 < length rows \<and> length rows \<le> nat batch_size))))"
proof (intro conjI impI)
  assume a: "train_part ds \<noteq> [] \<and> distinct (train_part ds) \<and> batch_ind ds = 0 \<and>
      list_all (readable ds) (train_part ds)"
  define batches where "batches =
      map (\<lambda>k. take_rows ds (sort (batch_rows (train_part ds) batch_size k)))
        [0..<num_batches (train_part ds) batch_size]"
  have run: "consecutive (num_batches (train_part ds) batch_size)
      (\<lambda>d. get_train_batch d batch_size) ds = Inr (batches, ds)"
    unfolding batches_def using a train_pass[OF assms] by blast
  note pc = pass_contents(1)[OF assms, where part = "train_part ds" and ds = ds, folded batches_def]
    pass_contents(2)[OF assms, where part = "train_part ds" and ds = ds, folded batches_def]
    pass_contents(3)[OF assms, where part = "train_part ds"]
  show "(\<exists>batches N.
          N = nat \<lceil>rat_of_nat (length (train_part ds)) / rat_of_int batch_size\<rceil> \<and>
          consecutive N (\<lambda>d. get_train_batch d batch_size) ds = Inr (batches, ds) \<and>
          length batches = N \<and>
          concat (map (\<lambda>k. take (nat batch_size) (drop (k * nat batch_size) (train_part ds))) [0..<N]) =
            train_part ds \<and>
          (\<forall>k < N. \<forall>rows. rows = sort (take (nat batch_size) (drop (k * nat batch_size) (train_part ds))) \<longrightarrow>
           d1 (batches ! k) =
             map (\<lambda>r. map (\<lambda>v. (v - (- 524 / 100)) / (817 / 100)) (fst (codes ds ! r))) rows \<and>
           d2 (batches ! k) =
             map (\<lambda>r. map (\<lambda>v. (v - (- 524 / 100)) / (817 / 100)) (fst (snd (codes ds ! r)))) rows \<and>
           d3 (batches ! k) =
             map (\<lambda>r. map (\<lambda>v. (v - (- 524 / 100)) / (817 / 100))
                         (fst (snd (snd (codes ds ! r))))) rows \<and>
           d4 (batches ! k) =
             map (\<lambda>r. map (\<lambda>v. (v - (- 524 / 100)) / (817 / 100))
                         (snd (snd (snd (codes ds ! r))))) rows \<and>
           img (batches ! k) = map (\<lambda>r. sat_patch ds (gsv_lat ds ! r) (gsv_lng ds ! r)) rows \<and>
           l (batches ! k) =
             map (\<lambda>r. map (\<lambda>t. if labels ds ! r = t then 1 else 0) (label_types ds)) rows \<and>
           (if Suc k < N then length rows = nat batch_size
            else 0 < length rows \<and> length rows \<le> nat batch_size)))"
    apply (intro exI[of _ batches]
        exI[of _ "nat \<lceil>rat_of_nat (length (train_part ds)) / rat_of_int batch_size\<rceil>"] conjI)
        apply (rule refl)
       apply (rule run[unfolded num_batches_ceiling])
      apply (rule pc(1))
     apply (rule pc(3))
    apply (rule pc(2))
    done
next
  assume a: "test_part ds \<noteq> [] \<and> distinct (test_part ds) \<and> batch_ind_test ds = 0 \<and>
      list_all (readable ds) (test_part ds)"
  define batches where "batches =
      map (\<lambda>k. take_rows ds (sort (batch_rows (test_part ds) batch_size k)))
        [0..<num_batches (test_part ds) batch_size]"
  have run: "consecutive (num_batches (test_part ds) batch_size)
      (\<lambda>d. get_test_batch d batch_size) ds = Inr (batches, ds)"
    unfolding batches_def using a test_pass[OF assms] by blast
  note pc = pass_contents(1)[OF assms, where part = "test_part ds" and ds = ds, folded batches_def]
    pass_contents(2)[OF assms, where part = "test_part ds" and ds = ds, folded batches_def]
    pass_contents(3)[OF assms, where part = "test_part ds"]
  show "(\<exists>batches N.
          N = nat \<lceil>rat_of_nat (length (test_part ds)) / rat_of_int batch_size\<rceil> \<and>
          consecutive N (\<lambda>d. get_test_batch d batch_size) ds = Inr (batches, ds) \<and>
          length batches = N \<and>
          concat (map (\<lambda>k. take (nat batch_size) (drop (k * nat batch_size) (test_part ds))) [0..<N]) =
            test_part ds \<and>
          (\<forall>k < N. \<forall>rows. rows = sort (take (nat batch_size) (drop (k * nat batch_size) (test_part ds))) \<longrightarrow>
           d1 (batches ! k) =
             map (\<lambda>r. map (\<lambda>v. (v - (- 524 / 100)) / (817 / 100)) (fst (codes ds ! r))) rows \<and>
           d2 (batches ! k) =
             map (\<lambda>r. map (\<lambda>v. (v - (- 524 / 100)) / (817 / 100)) (fst (snd (codes ds ! r)))) rows \<and>
           d3 (batches ! k) =
             map (\<lambda>r. map (\<lambda>v. (v - (- 524 / 100)) / (817 / 100))
                         (fst (snd (snd (codes ds ! r))))) rows \<and>
           d4 (batches ! k) =
             map (\<lambda>r. map (\<lambda>v. (v - (- 524 / 100)) / (817 / 100))
                         (snd (snd (snd (codes ds ! r))))) rows \<and>
           img (batches ! k) = map (\<lambda>r. sat_patch ds (gsv_lat ds ! r) (gsv_lng ds ! r)) rows \<and>
           l (batches ! k) =
             map (\<lambda>r. map (\<lambda>t. if labels ds ! r = t then 1 else 0) (label_types ds)) rows \<and>
           (if Suc k < N then length rows = nat batch_size
            else 0 < length rows \<and> length rows \<le> nat batch_size)))"
    apply (intro exI[of _ batches]
        exI[of _ "nat \<lceil>rat_of_nat (length (test_part ds)) / rat_of_int batch_size\<rceil>"] conjI)
        apply (rule refl)
       apply (rule run[unfolded num_batches_ceiling])
      apply (rule pc(1))
     apply (rule pc(3))
    apply (rule pc(2))
    done
qed

theorem batch_cursor_wrap_witness:
  "(1::int) \<le> 2 \<and>
   train_part demo_split \<noteq> [] \<and> distinct (train_part demo_split) \<and> batch_ind demo_split = 0 \<and>
   list_all (readable demo_split) (train_part demo_split) \<and>
   test_part demo_split \<noteq> [] \<and> distinct (test_part demo_split) \<and>
   batch_ind_test demo_split = 0 \<and>
   list_all (readable demo_split) (test_part demo_split) \<and>
   train_part demo_split = [4, 0, 8, 2, 6] \<and> test_part demo_split = [7, 1, 3] \<and>
   consecutive 3 (\<lambda>d. get_train_batch d 2) demo_split =
     Inr ([\<lparr>d1 = [[524 / 817], [924 / 817]], d2 = [[524 / 817], [924 / 817]],
            d3 = [[524 / 817], [924 / 817]], d4 = [[524 / 817], [924 / 817]],
            img = [0, 0], l = [[1, 0, 0], [0, 1, 0]]\<rparr>,
           \<lparr>d1 = [[724 / 817], [1324 / 817]], d2 = [[724 / 817], [1324 / 817]],
            d3 = [[724 / 817], [1324 / 817]], d4 = [[724 / 817], [1324 / 817]],
            img = [0, 0], l = [[1, 0, 0], [0, 0, 1]]\<rparr>,
           \<lparr>d1 = [[1124 / 817]], d2 = [[1124 / 817]], d3 = [[1124 / 817]],
            d4 = [[1124 / 817]], img = [0], l = [[0, 0, 1]]\<rparr>],
          demo_split) \<and>
   consecutive 2 (\<lambda>d. get_test_batch d 2) demo_split =
     Inr ([\<lparr>d1 = [[624 / 817], [1224 / 817]], d2 = [[624 / 817], [1224 / 817]],
            d3 = [[624 / 817], [1224 / 817]], d4 = [[624 / 817], [1224 / 817]],
            img = [0, 0], l = [[1, 0, 0], [0, 0, 1]]\<rparr>,
           \<lparr>d1 = [[824 / 817]], d2 = [[824 / 817]], d3 = [[824 / 817]],
            d4 = [[824 / 817]], img = [0], l = [[0, 1, 0]]\<rparr>],
          demo_split)"
  (is "?h \<and> ?a1 \<and> ?a2 \<and> ?a3 \<and> ?a4 \<and> ?b1 \<and> ?b2 \<and> ?b3 \<and> ?b4 \<and> ?p1 \<and> ?p2 \<and> ?c1 \<and> ?c2")
proof -
  have h: ?h by simp
  have a: "train_part demo_split \<noteq> [] \<and> distinct (train_part demo_split) \<and>
      batch_ind demo_split = 0 \<and> list_all (readable demo_split) (train_part demo_split)"
    by (simp add: demo_split_fields demo_split_readable)
  have b: "test_part demo_split \<noteq> [] \<and> distinct (test_part demo_split) \<and>
      batch_ind_test demo_split = 0 \<and> list_all (readable demo_split) (test_part demo_split)"
    by (simp add: demo_split_fields demo_split_readable)
  have p: ?p1 ?p2 by (simp_all add: demo_split_fields)
  have n: "nat \<lceil>rat_of_nat (length (train_part demo_split)) / rat_of_int 2\<rceil> = 3"
    "nat \<lceil>rat_of_nat (length (test_part demo_split)) / rat_of_int 2\<rceil> = 2"
    using num_batches_ceiling[of "train_part demo_split" 2, symmetric]
      num_batches_ceiling[of "test_part demo_split" 2, symmetric]
    by (simp_all add: num_batches_def int_ceil_div demo_split_fields)
  note t = batch_cursor_wrap[OF h, of demo_split]
  from t[THEN conjunct1, THEN mp, OF a] obtain batches N where
    r: "N = nat \<lceil>rat_of_nat (length (train_part demo_split)) / rat_of_int 2\<rceil>"
       "consecutive N (\<lambda>d. get_train_batch d 2) demo_split = Inr (batches, demo_split)"
    and c: "\<forall>k < N. \<forall>rows. rows = sort (take (nat 2) (drop (k * nat 2) (train_part demo_split))) \<longrightarrow>
           d1 (batches ! k) =
             map (\<lambda>r. map (\<lambda>v. (v - (- 524 / 100)) / (817 / 100)) (fst (codes demo_split ! r))) rows"
    by blast
  from t[THEN conjunct2, THEN mp, OF b] obtain batches' N' where
    r': "N' = nat \<lceil>rat_of_nat (length (test_part demo_split)) / rat_of_int 2\<rceil>"
       "consecutive N' (\<lambda>d. get_test_batch d 2) demo_split = Inr (batches', demo_split)"
    by blast
  have u: "[0..<3] = [0, Suc 0, 2]" "[0..<2] = [0, Suc 0]" by (simp_all add: upt_conv_Cons)
  have s: "sort (batch_rows (train_part demo_split) 2 0) = [0, 4]"
    "sort (batch_rows (train_part demo_split) 2 (Suc 0)) = [2, 8]"
    "sort (batch_rows (train_part demo_split) 2 2) = [6]"
    "sort (batch_rows (test_part demo_split) 2 0) = [1, 7]"
    "sort (batch_rows (test_part demo_split) 2 (Suc 0)) = [3]"
    by (simp_all add: batch_rows_def py_slice_def slice_bound_def demo_split_fields)
  have nb: "num_batches (train_part demo_split) 2 = 3" "num_batches (test_part demo_split) 2 = 2"
    by (simp_all add: num_batches_def int_ceil_div demo_split_fields)
  have e1: "consecutive 3 (\<lambda>d. get_train_batch d 2) demo_split =
      Inr ([take_rows demo_split [0, 4], take_rows demo_split [2, 8], take_rows demo_split [6]],
           demo_split)"
    using train_pass[OF h, of demo_split] a by (simp add: nb u s)
  have e2: "consecutive 2 (\<lambda>d. get_test_batch d 2) demo_split =
      Inr ([take_rows demo_split [1, 7], take_rows demo_split [3]], demo_split)"
    using test_pass[OF h, of demo_split] b by (simp add: nb u s)
  have N: "N = 3" "N' = 2" using r(1) r'(1) n by simp_all
  have "batches = [take_rows demo_split [0, 4], take_rows demo_split [2, 8],
      take_rows demo_split [6]]"
    using r(2) e1 unfolding N by simp
  with r(2) demo_split_rows have c1: ?c1 unfolding N by simp
  have "batches' = [take_rows demo_split [1, 7], take_rows demo_split [3]]"
    using r'(2) e2 unfolding N by simp
  with r'(2) demo_split_rows have c2: ?c2 unfolding N by simp
  from h a b p c1 c2 show ?thesis by blast
qed

section \<open>The cursors\<close>

text \<open>
  Claim C9, as amended to batch sizes that are not negative. A constructed dataset has its
  three cursors at 0. A call of \<^verbatim>\<open>get_train_batch\<close>, \<^verbatim>\<open>get_validation_batch\<close> or
  \<^verbatim>\<open>get_test_batch\<close> with \<open>0 \<le> batch_size\<close>, on a dataset whose cursor is not negative and
  whose partition holds readable indices, returns; the dataset it returns differs from the
  one before in that getter's cursor only, and the new cursor \<open>c\<close> satisfies \<open>0 \<le> c\<close> and,
  when the partition is not empty, \<open>c < |partition|\<close>. The same holds of every call with
  \<open>0 \<le> batch_size\<close> that returns.
\<close>

theorem cursors_stay_in_range:
  "batch_ind (Dataset_init features raw_labels ids lname craw lat lng sat_image patch psize
       :: 'p dataset) = 0 \<and>
   batch_ind_valid (Dataset_init features raw_labels ids lname craw lat lng sat_image patch psize
       :: 'p dataset) = 0 \<and>
   batch_ind_test (Dataset_init features raw_labels ids lname craw lat lng sat_image patch psize
       :: 'p dataset) = 0 \<and>
   (0 \<le> batch_size \<and> 0 \<le> batch_ind ds \<and> list_all (readable ds) (train_part ds) \<longrightarrow>
      (\<exists>b c. get_train_batch ds batch_size = Inr (b, ds\<lparr>batch_ind := c\<rparr>) \<and> 0 \<le> c \<and>
             (train_part ds \<noteq> [] \<longrightarrow> c < int (length (train_part ds))))) \<and>
   (0 \<le> batch_size \<and> 0 \<le> batch_ind_valid ds \<and> list_all (readable ds) (validation_part ds) \<longrightarrow>
      (\<exists>b c. get_validation_batch ds batch_size = Inr (b, ds\<lparr>batch_ind_valid := c\<rparr>) \<and> 0 \<le> c \<and>
             (validation_part ds \<noteq> [] \<longrightarrow> c < int (length (validation_part ds))))) \<and>
   (0 \<le> batch_size \<and> 0 \<le> batch_ind_test ds \<and> list_all (readable ds) (test_part ds) \<longrightarrow>
      (\<exists>b c. get_test_batch ds batch_size = Inr (b, ds\<lparr>batch_ind_test := c\<rparr>) \<and> 0 \<le> c \<and>
             (test_part ds \<noteq> [] \<longrightarrow> c < int (length (test_part ds))))) \<and>
   (0 \<le> batch_size \<and> 0 \<le> batch_ind ds \<and> get_train_batch ds batch_size = Inr (b1, ds1) \<longrightarrow>
      ds1 = ds\<lparr>batch_ind := batch_ind ds1\<rparr> \<and> 0 \<le> batch_ind ds1 \<and>
      (train_part ds \<noteq> [] \<longrightarrow> batch_ind ds1 < int (length (train_part ds1)))) \<and>
   (0 \<le> batch_size \<and> 0 \<le> batch_ind_valid ds \<and>
      get_validation_batch ds batch_size = Inr (b2, ds2) \<longrightarrow>
      ds2 = ds\<lparr>batch_ind_valid := batch_ind_valid ds2\<rparr> \<and> 0 \<le> batch_ind_valid ds2 \<and>
      (validation_part ds \<noteq> [] \<longrightarrow> batch_ind_valid ds2 < int (length (validation_part ds2)))) \<and>
   (0 \<le> batch_size \<and> 0 \<le> batch_ind_test ds \<and> get_test_batch ds batch_size = Inr (b3, ds3) \<longrightarrow>
      ds3 = ds\<lparr>batch_ind_test := batch_ind_test ds3\<rparr> \<and> 0 \<le> batch_ind_test ds3 \<and>
      (test_part ds \<noteq> [] \<longrightarrow> batch_ind_test ds3 < int (length (test_part ds3))))"
proof (intro conjI impI)
  show "batch_ind (Dataset_init features raw_labels ids lname craw lat lng sat_image patch psize
       :: 'p dataset) = 0"
    "batch_ind_valid (Dataset_init features raw_labels ids lname craw lat lng sat_image patch psize
       :: 'p dataset) = 0"
    "batch_ind_test (Dataset_init features raw_labels ids lname craw lat lng sat_image patch psize
       :: 'p dataset) = 0"
    by (simp_all add: Dataset_init_def Let_def)
next
  assume a: "0 \<le> batch_size \<and> 0 \<le> batch_ind ds \<and> list_all (readable ds) (train_part ds)"
  let ?c = "if int (length (train_part ds)) \<le> batch_ind ds + batch_size then 0
            else batch_ind ds + batch_size"
  have "get_train_batch ds batch_size =
      Inr (take_rows ds (sort (py_slice (train_part ds) (batch_ind ds)
             (batch_ind ds + batch_size))), ds\<lparr>batch_ind := ?c\<rparr>)"
    using a get_train_batch_readable by blast
  moreover have "0 \<le> ?c" "train_part ds \<noteq> [] \<longrightarrow> ?c < int (length (train_part ds))"
    using a cursor_step_range[of batch_size "batch_ind ds" "length (train_part ds)"] by auto
  ultimately show "\<exists>b c. get_train_batch ds batch_size = Inr (b, ds\<lparr>batch_ind := c\<rparr>) \<and> 0 \<le> c \<and>
             (train_part ds \<noteq> [] \<longrightarrow> c < int (length (train_part ds)))"
    by blast
next
  assume a: "0 \<le> batch_size \<and> 0 \<le> batch_ind_valid ds \<and>
      list_all (readable ds) (validation_part ds)"
  let ?c = "if int (length (validation_part ds)) \<le> batch_ind_valid ds + batch_size then 0
            else batch_ind_valid ds + batch_size"
  have "get_validation_batch ds batch_size =
      Inr (take_rows ds (sort (py_slice (validation_part ds) (batch_ind_valid ds)
             (batch_ind_valid ds + batch_size))), ds\<lparr>batch_ind_valid := ?c\<rparr>)"
    using a get_validation_batch_readable by blast
  moreover have "0 \<le> ?c" "validation_part ds \<noteq> [] \<longrightarrow> ?c < int (length (validation_part ds))"
    using a cursor_step_range[of batch_size "batch_ind_valid ds" "length (validation_part ds)"]
    by auto
  ultimately show "\<exists>b c. get_validation_batch ds batch_size = Inr (b, ds\<lparr>batch_ind_valid := c\<rparr>) \<and>
      0 \<le> c \<and> (validation_part ds \<noteq> [] \<longrightarrow> c < int (length (validation_part ds)))"
    by blast
next
  assume a: "0 \<le> batch_size \<and> 0 \<le> batch_ind_test ds \<and> list_all (readable ds) (test_part ds)"
  let ?c = "if int (length (test_part ds)) \<le> batch_ind_test ds + batch_size then 0
            else batch_ind_test ds + batch_size"
  have "get_test_batch ds batch_size =
      Inr (take_rows ds (sort (py_slice (test_part ds) (batch_ind_test ds)
             (batch_ind_test ds + batch_size))), ds\<lparr>batch_ind_test := ?c\<rparr>)"
    using a get_test_batch_readable by blast
  moreover have "0 \<le> ?c" "test_part ds \<noteq> [] \<longrightarrow> ?c < int (length (test_part ds))"
    using a cursor_step_range[of batch_size "batch_ind_test ds" "length (test_part ds)"] by auto
  ultimately show "\<exists>b c. get_test_batch ds batch_size = Inr (b, ds\<lparr>batch_ind_test := c\<rparr>) \<and> 0 \<le> c \<and>
             (test_part ds \<noteq> [] \<longrightarrow> c < int (length (test_part ds)))"
    by blast
next
  assume a: "0 \<le> batch_size \<and> 0 \<le> batch_ind ds \<and> get_train_batch ds batch_size = Inr (b1, ds1)"
  then have e: "ds1 = ds\<lparr>batch_ind := (if int (length (train_part ds)) \<le> batch_ind ds + batch_size
        then 0 else batch_ind ds + batch_size)\<rparr>"
    using get_train_batch_Inr by blast
  show "ds1 = ds\<lparr>batch_ind := batch_ind ds1\<rparr>" by (subst (2) e, subst e) simp
  show "0 \<le> batch_ind ds1" using a by (subst e) simp
  show "batch_ind ds1 < int (length (train_part ds1))" if "train_part ds \<noteq> []"
    using a that by (subst e, subst e) simp
next
  assume a: "0 \<le> batch_size \<and> 0 \<le> batch_ind_valid ds \<and>
      get_validation_batch ds batch_size = Inr (b2, ds2)"
  then have e: "ds2 = ds\<lparr>batch_ind_valid :=
        (if int (length (validation_part ds)) \<le> batch_ind_valid ds + batch_size
         then 0 else batch_ind_valid ds + batch_size)\<rparr>"
    using get_validation_batch_Inr by blast
  show "ds2 = ds\<lparr>batch_ind_valid := batch_ind_valid ds2\<rparr>" by (subst (2) e, subst e) simp
  show "0 \<le> batch_ind_valid ds2" using a by (subst e) simp
  show "batch_ind_valid ds2 < int (length (validation_part ds2))" if "validation_part ds \<noteq> []"
    using a that by (subst e, subst e) simp
next
  assume a: "0 \<le> batch_size \<and> 0 \<le> batch_ind_test ds \<and>
      get_test_batch ds batch_size = Inr (b3, ds3)"
  then have e: "ds3 = ds\<lparr>batch_ind_test :=
        (if int (length (test_part ds)) \<le> batch_ind_test ds + batch_size
         then 0 else batch_ind_test ds + batch_size)\<rparr>"
    using get_test_batch_Inr by blast
  show "ds3 = ds\<lparr>batch_ind_test := batch_ind_test ds3\<rparr>" by (subst (2) e, subst e) simp
  show "0 \<le> batch_ind_test ds3" using a by (subst e) simp
  show "batch_ind_test ds3 < int (length (test_part ds3))" if "test_part ds \<noteq> []"
    using a that by (subst e, subst e) simp
qed

theorem cursors_stay_in_range_witness:
  "(0::int) \<le> 2 \<and> 0 \<le> batch_ind demo_split \<and> 0 \<le> batch_ind_valid demo_split \<and>
   0 \<le> batch_ind_test demo_split \<and>
   list_all (readable demo_split) (train_part demo_split) \<and>
   list_all (readable demo_split) (validation_part demo_split) \<and>
   list_all (readable demo_split) (test_part demo_split) \<and>
   train_part demo_split \<noteq> [] \<and> validation_part demo_split \<noteq> [] \<and>
   test_part demo_split \<noteq> [] \<and>
   get_train_batch demo_split 2 = Inr (take_rows demo_split [0, 4], demo_split\<lparr>batch_ind := 2\<rparr>) \<and>
   get_validation_batch demo_split 2 = Inr (take_rows demo_split [5], demo_split) \<and>
   get_test_batch demo_split 2 =
     Inr (take_rows demo_split [1, 7], demo_split\<lparr>batch_ind_test := 2\<rparr>) \<and>
   batch_ind (demo_split\<lparr>batch_ind := 2\<rparr>)
     < int (length (train_part (demo_split\<lparr>batch_ind := 2\<rparr>))) \<and>
   batch_ind_valid demo_split < int (length (validation_part demo_split)) \<and>
   batch_ind_test (demo_split\<lparr>batch_ind_test := 2\<rparr>)
     < int (length (test_part (demo_split\<lparr>batch_ind_test := 2\<rparr>)))"
proof -
  have h: "(0::int) \<le> 2" "0 \<le> batch_ind demo_split" "0 \<le> batch_ind_valid demo_split"
    "0 \<le> batch_ind_test demo_split"
    by (simp_all add: demo_split_fields)
  have r: "list_all (readable demo_split) (train_part demo_split)"
    "list_all (readable demo_split) (validation_part demo_split)"
    "list_all (readable demo_split) (test_part demo_split)"
    by (simp_all add: demo_split_fields demo_split_readable)
  have n: "train_part demo_split \<noteq> []" "validation_part demo_split \<noteq> []"
    "test_part demo_split \<noteq> []"
    by (simp_all add: demo_split_fields)
  have g1: "get_train_batch demo_split 2 =
      Inr (take_rows demo_split [0, 4], demo_split\<lparr>batch_ind := 2\<rparr>)"
    by (simp add: get_train_batch_readable[OF r(1)] demo_split_fields py_slice_def slice_bound_def)
  have g2: "get_validation_batch demo_split 2 = Inr (take_rows demo_split [5], demo_split)"
    using demo_split_fields(5)
    by (simp add: get_validation_batch_readable[OF r(2)] demo_split_fields py_slice_def
        slice_bound_def)
  have g3: "get_test_batch demo_split 2 =
      Inr (take_rows demo_split [1, 7], demo_split\<lparr>batch_ind_test := 2\<rparr>)"
    by (simp add: get_test_batch_readable[OF r(3)] demo_split_fields py_slice_def slice_bound_def)
  note t = cursors_stay_in_range[where ds = demo_split and batch_size = 2
      and ?b1.0 = "take_rows demo_split [0, 4]" and ?ds1.0 = "demo_split\<lparr>batch_ind := 2\<rparr>"
      and ?b2.0 = "take_rows demo_split [5]" and ?ds2.0 = demo_split
      and ?b3.0 = "take_rows demo_split [1, 7]" and ?ds3.0 = "demo_split\<lparr>batch_ind_test := 2\<rparr>"]
  from t h n g1 have c1: "batch_ind (demo_split\<lparr>batch_ind := 2\<rparr>)
     < int (length (train_part (demo_split\<lparr>batch_ind := 2\<rparr>)))" by blast
  from t h n g2 have c2: "batch_ind_valid demo_split < int (length (validation_part demo_split))"
    by blast
  from t h n g3 have c3: "batch_ind_test (demo_split\<lparr>batch_ind_test := 2\<rparr>)
     < int (length (test_part (demo_split\<lparr>batch_ind_test := 2\<rparr>)))" by blast
  from h r n g1 g2 g3 c1 c2 c3 show ?thesis by blast
qed

text \<open>
  The claim as stated, for every call, fails for a negative batch size: on the split
  population, whose training partition is \<open>[4, 0, 8, 2, 6]\<close> with the cursor at 0,
  \<^verbatim>\<open>get_train_batch(-1)\<close> reads the slice \<open>[0 : -1]\<close>, returns the four samples \<open>0, 2, 4, 8\<close>
  and leaves the cursor at \<open>-1\<close>.
\<close>

theorem cursor_negative_batch_size_counterexample:
  "train_part demo_split \<noteq> [] \<and> batch_ind demo_split = 0 \<and>
   list_all (readable demo_split) (train_part demo_split) \<and>
   get_train_batch demo_split (- 1) =
     Inr (\<lparr>d1 = [[524 / 817], [724 / 817], [924 / 817], [1324 / 817]],
           d2 = [[524 / 817], [724 / 817], [924 / 817], [1324 / 817]],
           d3 = [[524 / 817], [724 / 817], [924 / 817], [1324 / 817]],
           d4 = [[524 / 817], [724 / 817], [924 / 817], [1324 / 817]],
           img = [0, 0, 0, 0], l = [[1, 0, 0], [1, 0, 0], [0, 1, 0], [0, 0, 1]]\<rparr>,
          demo_split\<lparr>batch_ind := - 1\<rparr>) \<and>
   batch_ind (demo_split\<lparr>batch_ind := - 1\<rparr>) < 0"
proof -
  have r: "list_all (readable demo_split) (train_part demo_split)"
    by (simp add: demo_split_fields demo_split_readable)
  have s: "sort (py_slice (train_part demo_split) 0 (- 1)) = [0, 2, 4, 8]"
    by (simp add: py_slice_def slice_bound_def demo_split_fields)
  have t: "take_rows demo_split [0, 2, 4, 8] =
      \<lparr>d1 = [[524 / 817], [724 / 817], [924 / 817], [1324 / 817]],
           d2 = [[524 / 817], [724 / 817], [924 / 817], [1324 / 817]],
           d3 = [[524 / 817], [724 / 817], [924 / 817], [1324 / 817]],
           d4 = [[524 / 817], [724 / 817], [924 / 817], [1324 / 817]],
           img = [0, 0, 0, 0], l = [[1, 0, 0], [1, 0, 0], [0, 1, 0], [0, 0, 1]]\<rparr>"
    by (simp add: take_rows_def demo_split_storage demo_split_fields(7,8) one_hot_def
      normalize_features_def VGGM_def VGGS_def)
  have g: "get_train_batch demo_split (- 1) =
      Inr (take_rows demo_split [0, 2, 4, 8], demo_split\<lparr>batch_ind := - 1\<rparr>)"
    using get_train_batch_readable[OF r, of "- 1"] s
    by (simp add: demo_split_fields(1,4))
  from r g t show ?thesis by (simp add: demo_split_fields(1,4))
qed

section \<open>Balanced batches\<close>

text \<open>
  Claim C10. \<^verbatim>\<open>get_balanced_train_batch\<close> and \<^verbatim>\<open>get_balanced_validation_batch\<close> return the
  dataset they were called on: the cursors, the partitions and every other field are the
  same after the call as before.
\<close>

theorem balanced_batches_keep_dataset:
  "(get_balanced_train_batch permutation ds batch_size = Inr (b, ds') \<longrightarrow> ds' = ds) \<and>
   (get_balanced_validation_batch permutation ds batch_size = Inr (b, ds') \<longrightarrow> ds' = ds)"
  by (auto simp: get_balanced_train_batch_def get_balanced_validation_batch_def Let_def
      split: if_splits sum.splits)

theorem balanced_batches_keep_dataset_witness:
  "get_balanced_train_batch (\<lambda>k xs. xs) demo_split 3 =
     Inr (take_rows demo_split [0, 4, 8], demo_split) \<and>
   get_balanced_validation_batch (\<lambda>k xs. xs) demo_split 3 =
     Inr (take_rows demo_split [5], demo_split)"
proof -
  have t: "int_trunc 3 3 = 1" by (simp add: int_trunc_nonneg)
  have u: "[0..<5] = [0, 1, 2, 3, 4]" "[0..<1] = [0]" by (simp_all add: upt_conv_Cons)
  have e: "enumerate 0 [0, 1, 2 :: int] = [(0, 0), (1, 1), (2, 2)]" by simp
  have r1: "list_all (readable demo_split) [0, 4, 8]" "list_all (readable demo_split) [5]"
    by (simp_all add: demo_split_readable)
  have a: "get_balanced_train_batch (\<lambda>k xs. xs) demo_split 3 =
      Inr (take_rows demo_split [0, 4, 8], demo_split)"
    by (simp add: get_balanced_train_batch_def demo_split_fields t u e where_eq_def
        py_slice_def slice_bound_def get_data_part_readable[OF r1(1)])
  have b: "get_balanced_validation_batch (\<lambda>k xs. xs) demo_split 3 =
      Inr (take_rows demo_split [5], demo_split)"
    by (simp add: get_balanced_validation_batch_def demo_split_fields t u e where_eq_def
        py_slice_def slice_bound_def get_data_part_readable[OF r1(2)])
  from balanced_batches_keep_dataset[of "\<lambda>k xs. xs" demo_split 3 "take_rows demo_split [0, 4, 8]"
      demo_split] a b
  show ?thesis by blast
qed

section \<open>Fetching a list of rows\<close>

text \<open>
  Claim C2, as amended. For every non-empty list \<open>rows\<close> of distinct readable indices,
  \<^verbatim>\<open>get_data_part(rows)\<close> returns, and row \<open>i\<close> of each of the six returned arrays is the data
  of the \<open>i\<close>-th smallest index of \<open>rows\<close>: the four normalised views
  \<open>(codes[r, j] - (-5.24)) / 8.17\<close>, the patch at the coordinates of \<open>r\<close> and the one-hot row
  of the label of \<open>r\<close>. So the samples returned are exactly those of \<open>rows\<close>, in ascending
  order of index; this is the caller's order when the caller's list is ascending. (The
  indices fetched are written \<open>srows\<close>: the ascending list with the elements of \<open>rows\<close>.)
\<close>

theorem get_data_part_ascending:
  fixes ds :: "'p dataset"
  shows "rows \<noteq> [] \<and> distinct rows \<and> list_all (readable ds) rows \<longrightarrow>
     (\<exists>b srows.
        get_data_part ds rows = Inr b \<and>
        sorted srows \<and> distinct srows \<and> set srows = set rows \<and> length srows = length rows \<and>
        (sorted rows \<longrightarrow> srows = rows) \<and>
        d1 b = map (\<lambda>r. map (\<lambda>v. (v - (- 524 / 100)) / (817 / 100)) (fst (codes ds ! r))) srows \<and>
        d2 b =
          map (\<lambda>r. map (\<lambda>v. (v - (- 524 / 100)) / (817 / 100)) (fst (snd (codes ds ! r)))) srows \<and>
        d3 b =
          map (\<lambda>r. map (\<lambda>v. (v - (- 524 / 100)) / (817 / 100))
                      (fst (snd (snd (codes ds ! r))))) srows \<and>
        d4 b =
          map (\<lambda>r. map (\<lambda>v. (v - (- 524 / 100)) / (817 / 100))
                      (snd (snd (snd (codes ds ! r))))) srows \<and>
        img b = map (\<lambda>r. sat_patch ds (gsv_lat ds ! r) (gsv_lng ds ! r)) srows \<and>
        l b = map (\<lambda>r. map (\<lambda>t. if labels ds ! r = t then 1 else 0) (label_types ds)) srows)"
proof
  assume a: "rows \<noteq> [] \<and> distinct rows \<and> list_all (readable ds) rows"
  then have g: "get_data_part ds rows = Inr (take_rows ds (sort rows))"
    using get_data_part_readable by blast
  have s: "sorted (sort rows)" "distinct (sort rows)" "set (sort rows) = set rows"
    "length (sort rows) = length rows" "sorted rows \<longrightarrow> sort rows = rows"
    using a by (simp_all add: sort_key_id_if_sorted)
  show "\<exists>b srows.
        get_data_part ds rows = Inr b \<and>
        sorted srows \<and> distinct srows \<and> set srows = set rows \<and> length srows = length rows \<and>
        (sorted rows \<longrightarrow> srows = rows) \<and>
        d1 b = map (\<lambda>r. map (\<lambda>v. (v - (- 524 / 100)) / (817 / 100)) (fst (codes ds ! r))) srows \<and>
        d2 b =
          map (\<lambda>r. map (\<lambda>v. (v - (- 524 / 100)) / (817 / 100)) (fst (snd (codes ds ! r)))) srows \<and>
        d3 b =
          map (\<lambda>r. map (\<lambda>v. (v - (- 524 / 100)) / (817 / 100))
                      (fst (snd (snd (codes ds ! r))))) srows \<and>
        d4 b =
          map (\<lambda>r. map (\<lambda>v. (v - (- 524 / 100)) / (817 / 100))
                      (snd (snd (snd (codes ds ! r))))) srows \<and>
        img b = map (\<lambda>r. sat_patch ds (gsv_lat ds ! r) (gsv_lng ds ! r)) srows \<and>
        l b = map (\<lambda>r. map (\<lambda>t. if labels ds ! r = t then 1 else 0) (label_types ds)) srows"
    apply (intro exI[of _ "take_rows ds (sort rows)"] exI[of _ "sort rows"] conjI)
               apply (rule g)
              apply (rule s(1))
             apply (rule s(2))
            apply (rule s(3))
           apply (rule s(4))
          apply (rule s(5))
         apply (rule take_rows_fields(1))
        apply (rule take_rows_fields(2))
       apply (rule take_rows_fields(3))
      apply (rule take_rows_fields(4))
     apply (rule take_rows_fields(5))
    apply (rule take_rows_fields(6))
    done
qed

text \<open>
  The claim as stated, that the returned rows are in the caller's request order, fails for
  the request \<open>[2, 0]\<close>: the first row returned is that of sample 0, not that of sample 2.
\<close>

theorem get_data_part_request_order_counterexample:
  "[2, 0 :: nat] \<noteq> [] \<and> distinct [2, 0 :: nat] \<and> list_all (readable demo) [2, 0] \<and>
   get_data_part demo [2, 0] =
     Inr \<lparr>d1 = [[524 / 817], [724 / 817]], d2 = [[524 / 817], [724 / 817]],
          d3 = [[524 / 817], [724 / 817]], d4 = [[524 / 817], [724 / 817]],
          img = [0, 0], l = [[1, 0, 0], [1, 0, 0]]\<rparr> \<and>
   map (\<lambda>v. (v - (- 524 / 100)) / (817 / 100)) (fst (codes demo ! 2)) = [724 / 817] \<and>
   map (\<lambda>v. (v - (- 524 / 100)) / (817 / 100)) (fst (codes demo ! 0)) = [524 / 817] \<and>
   [724 / 817] \<noteq> [524 / 817 :: rat]"
proof -
  have r: "list_all (readable demo) [2, 0]" by (simp add: demo_readable)
  have "get_data_part demo [2, 0] = Inr (take_rows demo [0, 2])"
    by (simp add: get_data_part_readable[OF r])
  then have g: "get_data_part demo [2, 0] =
     Inr \<lparr>d1 = [[524 / 817], [724 / 817]], d2 = [[524 / 817], [724 / 817]],
          d3 = [[524 / 817], [724 / 817]], d4 = [[524 / 817], [724 / 817]],
          img = [0, 0], l = [[1, 0, 0], [1, 0, 0]]\<rparr>"
    by (simp only: demo_rows_0_2)
  have v: "map (\<lambda>v. (v - (- 524 / 100)) / (817 / 100)) (fst (codes demo ! 2)) = [724 / 817]"
    "map (\<lambda>v. (v - (- 524 / 100)) / (817 / 100)) (fst (codes demo ! 0)) = [524 / 817]"
    by (simp_all add: demo_storage)
  from r g v show ?thesis by simp
qed

theorem get_data_part_ascending_witness:
  "[2, 0 :: nat] \<noteq> [] \<and> distinct [2, 0 :: nat] \<and> list_all (readable demo) [2, 0] \<and>
   sorted [0, 2 :: nat] \<and> distinct [0, 2 :: nat] \<and> set [0, 2 :: nat] = set [2, 0] \<and>
   get_data_part demo [2, 0] =
     Inr \<lparr>d1 = map (\<lambda>r. map (\<lambda>v. (v - (- 524 / 100)) / (817 / 100)) (fst (codes demo ! r))) [0, 2],
          d2 = [[524 / 817], [724 / 817]],
          d3 = [[524 / 817], [724 / 817]], d4 = [[524 / 817], [724 / 817]],
          img = [0, 0], l = [[1, 0, 0], [1, 0, 0]]\<rparr>"
proof -
  have a: "[2, 0 :: nat] \<noteq> [] \<and> distinct [2, 0 :: nat] \<and> list_all (readable demo) [2, 0]"
    by (simp add: demo_readable)
  have s: "sorted [0, 2 :: nat] \<and> distinct [0, 2 :: nat] \<and> set [0, 2 :: nat] = set [2, 0]"
    by auto
  from get_data_part_ascending[of "[2, 0]" demo, THEN mp, OF a] obtain b where
    b: "get_data_part demo [2, 0] = Inr b" by blast
  have "get_data_part demo [2, 0] = Inr (take_rows demo [0, 2])"
    using a by (simp add: get_data_part_readable)
  with b demo_rows_0_2 have "b = \<lparr>d1 = [[524 / 817], [724 / 817]], d2 = [[524 / 817], [724 / 817]],
      d3 = [[524 / 817], [724 / 817]], d4 = [[524 / 817], [724 / 817]],
      img = [0, 0], l = [[1, 0, 0], [1, 0, 0]]\<rparr>" by simp
  with b have "get_data_part demo [2, 0] =
     Inr \<lparr>d1 = map (\<lambda>r. map (\<lambda>v. (v - (- 524 / 100)) / (817 / 100)) (fst (codes demo ! r))) [0, 2],
          d2 = [[524 / 817], [724 / 817]],
          d3 = [[524 / 817], [724 / 817]], d4 = [[524 / 817], [724 / 817]],
          img = [0, 0], l = [[1, 0, 0], [1, 0, 0]]\<rparr>"
    by (simp add: demo_storage)
  with a s show ?thesis by blast
qed

section \<open>Batches before \<^verbatim>\<open>pick_label\<close>\<close>

text \<open>
  Claim C7, as amended. The module has no state check and raises no \<^verbatim>\<open>StateError\<close>. On a
  dataset as constructed, before any \<^verbatim>\<open>pick_label\<close>, the partitions are the empty
  placeholders, and each of \<^verbatim>\<open>get_train_batch\<close>, \<^verbatim>\<open>get_validation_batch\<close> and
  \<^verbatim>\<open>get_test_batch\<close> is the fetch of zero rows, \<^verbatim>\<open>get_data_part([])\<close>: the call raises exactly
  what that fetch raises, which is never a \<^verbatim>\<open>StateError\<close>, and otherwise returns what that
  fetch returns, with the getter's cursor set to \<open>min batch_size 0\<close>; so the dataset is left
  as it was when the batch size is not negative.
\<close>

theorem batch_before_pick_label:
  fixes D :: "'p dataset"
  assumes "D = Dataset_init features raw_labels ids lname craw lat lng sat_image patch psize"
  shows "get_train_batch D batch_size =
           (case get_data_part D [] of
              Inl e \<Rightarrow> Inl e
            | Inr b \<Rightarrow> Inr (b, D\<lparr>batch_ind := min batch_size 0\<rparr>)) \<and>
         get_validation_batch D batch_size =
           (case get_data_part D [] of
              Inl e \<Rightarrow> Inl e
            | Inr b \<Rightarrow> Inr (b, D\<lparr>batch_ind_valid := min batch_size 0\<rparr>)) \<and>
         get_test_batch D batch_size =
           (case get_data_part D [] of
              Inl e \<Rightarrow> Inl e
            | Inr b \<Rightarrow> Inr (b, D\<lparr>batch_ind_test := min batch_size 0\<rparr>)) \<and>
         get_train_batch D batch_size \<noteq> Inl StateError \<and>
         get_validation_batch D batch_size \<noteq> Inl StateError \<and>
         get_test_batch D batch_size \<noteq> Inl StateError \<and>
         (0 \<le> batch_size \<longrightarrow>
            D\<lparr>batch_ind := min batch_size 0\<rparr> = D \<and>
            D\<lparr>batch_ind_valid := min batch_size 0\<rparr> = D \<and>
            D\<lparr>batch_ind_test := min batch_size 0\<rparr> = D)"
proof -
  note f = Dataset_init_fresh[OF assms]
  have p: "py_slice ([] :: nat list) i j = []" for i j by (simp add: py_slice_def)
  have 1: "get_train_batch D batch_size =
           (case get_data_part D [] of
              Inl e \<Rightarrow> Inl e
            | Inr b \<Rightarrow> Inr (b, D\<lparr>batch_ind := min batch_size 0\<rparr>))"
    by (simp add: get_train_batch_def f p min_def Let_def split: sum.splits)
  have 2: "get_validation_batch D batch_size =
           (case get_data_part D [] of
              Inl e \<Rightarrow> Inl e
            | Inr b \<Rightarrow> Inr (b, D\<lparr>batch_ind_valid := min batch_size 0\<rparr>))"
    by (simp add: get_validation_batch_def f p min_def Let_def split: sum.splits)
  have 3: "get_test_batch D batch_size =
           (case get_data_part D [] of
              Inl e \<Rightarrow> Inl e
            | Inr b \<Rightarrow> Inr (b, D\<lparr>batch_ind_test := min batch_size 0\<rparr>))"
    by (simp add: get_test_batch_def f p min_def Let_def split: sum.splits)
  have 4: "D\<lparr>batch_ind := min batch_size 0\<rparr> = D \<and>
            D\<lparr>batch_ind_valid := min batch_size 0\<rparr> = D \<and>
            D\<lparr>batch_ind_test := min batch_size 0\<rparr> = D" if "0 \<le> batch_size"
    using that f(4,5,6) by (simp add: min_def)
  from 1 2 3 4 getters_no_state_error[of D batch_size] show ?thesis by blast
qed

text \<open>
  The claim as stated, that such a call aborts with a \<^verbatim>\<open>StateError\<close>, fails on the
  constructed population: none of the three getters gives a \<^verbatim>\<open>StateError\<close>; each gives
  the outcome of the fetch of zero rows.
\<close>

theorem batch_before_pick_label_counterexample:
  "get_train_batch demo 4 \<noteq> Inl StateError \<and>
   get_validation_batch demo 4 \<noteq> Inl StateError \<and>
   get_test_batch demo 4 \<noteq> Inl StateError \<and>
   get_train_batch demo 4 =
     (case get_data_part demo [] of Inl e \<Rightarrow> Inl e | Inr b \<Rightarrow> Inr (b, demo)) \<and>
   get_validation_batch demo 4 =
     (case get_data_part demo [] of Inl e \<Rightarrow> Inl e | Inr b \<Rightarrow> Inr (b, demo)) \<and>
   get_test_batch demo 4 =
     (case get_data_part demo [] of Inl e \<Rightarrow> Inl e | Inr b \<Rightarrow> Inr (b, demo))"
proof -
  have p: "py_slice ([] :: nat list) i j = []" for i j by (simp add: py_slice_def)
  have u: "demo\<lparr>batch_ind := 0\<rparr> = demo" "demo\<lparr>batch_ind_valid := 0\<rparr> = demo"
    "demo\<lparr>batch_ind_test := 0\<rparr> = demo"
    using demo_fields(4,5,6) by simp_all
  have e: "get_train_batch demo 4 =
     (case get_data_part demo [] of Inl e \<Rightarrow> Inl e | Inr b \<Rightarrow> Inr (b, demo))"
    "get_validation_batch demo 4 =
     (case get_data_part demo [] of Inl e \<Rightarrow> Inl e | Inr b \<Rightarrow> Inr (b, demo))"
    "get_test_batch demo 4 =
     (case get_data_part demo [] of Inl e \<Rightarrow> Inl e | Inr b \<Rightarrow> Inr (b, demo))"
    by (simp_all add: get_train_batch_def get_validation_batch_def get_test_batch_def
        demo_fields p u Let_def split: sum.splits)
  from e getters_no_state_error[of demo 4] show ?thesis by blast
qed

theorem batch_before_pick_label_witness:
  "(0::int) \<le> 4 \<and>
   get_train_batch demo 4 =
     (case get_data_part demo [] of
        Inl e \<Rightarrow> Inl e
      | Inr b \<Rightarrow> Inr (b, demo\<lparr>batch_ind := min 4 0\<rparr>)) \<and>
   get_train_batch demo 4 \<noteq> Inl StateError \<and>
   demo\<lparr>batch_ind := min 4 0\<rparr> = demo \<and>
   get_train_batch demo (- 1) =
     (case get_data_part demo [] of
        Inl e \<Rightarrow> Inl e
      | Inr b \<Rightarrow> Inr (b, demo\<lparr>batch_ind := min (- 1) 0\<rparr>))"
proof -
  have h: "(0::int) \<le> 4" by simp
  note a = batch_before_pick_label[OF demo_def, of 4]
  note b = batch_before_pick_label[OF demo_def, of "- 1"]
  from a have a1: "get_train_batch demo 4 =
     (case get_data_part demo [] of
        Inl e \<Rightarrow> Inl e
      | Inr b \<Rightarrow> Inr (b, demo\<lparr>batch_ind := min 4 0\<rparr>))"
    and a3: "get_train_batch demo 4 \<noteq> Inl StateError"
    by blast+
  from a h have a2: "demo\<lparr>batch_ind := min 4 0\<rparr> = demo" by blast
  from b have b1: "get_train_batch demo (- 1) =
     (case get_data_part demo [] of
        Inl e \<Rightarrow> Inl e
      | Inr b \<Rightarrow> Inr (b, demo\<lparr>batch_ind := min (- 1) 0\<rparr>))"
    by blast
  from h a1 a3 a2 b1 show ?thesis by blast
qed

section \<open>Full-pass iterators\<close>

text \<open>
  Claim C6. The module is read as Python 3, so \<^verbatim>\<open>len(part) / batch_num\<close> is true division.
  For a batch number of at least 1 and a partition of distinct readable indices,
  \<^verbatim>\<open>test_iterator\<close> (and \<^verbatim>\<open>validation_iterator\<close>) ends without an exception after yielding
  exactly \<open>N = ceil(|partition| / batch_num)\<close> batches. The \<open>k\<close>-th batch holds, row by row,
  the data of the indices of the \<open>k\<close>-th slice \<^verbatim>\<open>part[k*batch_num : (k+1)*batch_num]\<close> in
  ascending order: the four normalised views, the patch at the sample's coordinates and the
  one-hot row of its label (for the test iterator, paired with the identifier rows of the
  same indices). The slices concatenate to the partition, so one pass holds every sample
  exactly once; every batch but the last has \<open>batch_num\<close> rows and the last between 1 and
  \<open>batch_num\<close>; an empty partition yields no batch. The sequence yielded does not depend on
  the three cursors, and the iterator returns no dataset: every call is a full pass from the
  start of the partition.
\<close>

theorem iterators_full_pass:
  fixes ds :: "'p dataset"
  assumes "1 \<le> batch_num"
  shows
    "(distinct (test_part ds) \<and> list_all (readable ds) (test_part ds) \<and>
      list_all (\<lambda>r. r < length (vmap ds)) (test_part ds) \<longrightarrow>
        (\<exists>items N.
          N = nat \<lceil>rat_of_nat (length (test_part ds)) / rat_of_int batch_num\<rceil> \<and>
          test_iterator ds batch_num = (items, None) \<and>
          length items = N \<and>
          concat (map (\<lambda>k. take (nat batch_num) (drop (k * nat batch_num) (test_part ds))) [0..<N]) =
            test_part ds \<and>
          (\<forall>k < N. \<forall>rows. rows = sort (take (nat batch_num) (drop (k * nat batch_num) (test_part ds))) \<longrightarrow>
           snd (items ! k) = map (\<lambda>r. vmap ds ! r) rows \<and>
           d1 (fst (items ! k)) =
             map (\<lambda>r. map (\<lambda>v. (v - (- 524 / 100)) / (817 / 100)) (fst (codes ds ! r))) rows \<and>
           d2 (fst (items ! k)) =
             map (\<lambda>r. map (\<lambda>v. (v - (- 524 / 100)) / (817 / 100)) (fst (snd (codes ds ! r)))) rows \<and>
           d3 (fst (items ! k)) =
             map (\<lambda>r. map (\<lambda>v. (v - (- 524 / 100)) / (817 / 100))
                         (fst (snd (snd (codes ds ! r))))) rows \<and>
           d4 (fst (items ! k)) =
             map (\<lambda>r. map (\<lambda>v. (v - (- 524 / 100)) / (817 / 100))
                         (snd (snd (snd (codes ds ! r))))) rows \<and>
           img (fst (items ! k)) = map (\<lambda>r. sat_patch ds (gsv_lat ds ! r) (gsv_lng ds ! r)) rows \<and>
           l (fst (items ! k)) =
             map (\<lambda>r. map (\<lambda>t. if labels ds ! r = t then 1 else 0) (label_types ds)) rows \<and>
           (if Suc k < N then length rows = nat batch_num
            else 0 < length rows \<and> length rows \<le> nat batch_num)))) \<and>
     (distinct (validation_part ds) \<and> list_all (readable ds) (validation_part ds) \<longrightarrow>
        (\<exists>batches N.
          N = nat \<lceil>rat_of_nat (length (validation_part ds)) / rat_of_int batch_num\<rceil> \<and>
          validation_iterator ds batch_num = (batches, None) \<and>
          length batches = N \<and>
          concat (map (\<lambda>k. take (nat batch_num) (drop (k * nat batch_num) (validation_part ds))) [0..<N]) =
            validation_part ds \<and>
          (\<forall>k < N. \<forall>rows. rows = sort (take (nat batch_num) (drop (k * nat batch_num) (validation_part ds))) \<longrightarrow>
           d1 (batches ! k) =
             map (\<lambda>r. map (\<lambda>v. (v - (- 524 / 100)) / (817 / 100)) (fst (codes ds ! r))) rows \<and>
           d2 (batches ! k) =
             map (\<lambda>r. map (\<lambda>v. (v - (- 524 / 100)) / (817 / 100)) (fst (snd (codes ds ! r)))) rows \<and>
           d3 (batches ! k) =
             map (\<lambda>r. map (\<lambda>v. (v - (- 524 / 100)) / (817 / 100))
                         (fst (snd (snd (codes ds ! r))))) rows \<and>
           d4 (batches ! k) =
             map (\<lambda>r. map (\<lambda>v. (v - (- 524 / 100)) / (817 / 100))
                         (snd (snd (snd (codes ds ! r))))) rows \<and>
           img (batches ! k) = map (\<lambda>r. sat_patch ds (gsv_lat ds ! r) (gsv_lng ds ! r)) rows \<and>
           l (batches ! k) =
             map (\<lambda>r. map (\<lambda>t. if labels ds ! r = t then 1 else 0) (label_types ds)) rows \<and>
           (if Suc k < N then length rows = nat batch_num
            else 0 < length rows \<and> length rows \<le> nat batch_num)))) \<and>
     test_iterator (ds\<lparr>batch_ind := c1, batch_ind_valid := c2, batch_ind_test := c3\<rparr>)
         batch_num = test_iterator ds batch_num \<and>
     validation_iterator (ds\<lparr>batch_ind := c1, batch_ind_valid := c2, batch_ind_test := c3\<rparr>)
         batch_num = validation_iterator ds batch_num"
proof (intro conjI impI)
  have nz: "batch_num \<noteq> 0" and b0: "0 \<le> batch_num" using assms by simp_all
  assume a: "distinct (test_part ds) \<and> list_all (readable ds) (test_part ds) \<and>
      list_all (\<lambda>r. r < length (vmap ds)) (test_part ds)"
  define batches where "batches =
      map (\<lambda>k. take_rows ds (sort (batch_rows (test_part ds) batch_num k)))
        [0..<num_batches (test_part ds) batch_num]"
  define items where "items =
      map (\<lambda>k. (take_rows ds (sort (batch_rows (test_part ds) batch_num k)),
                 map (\<lambda>r. vmap ds ! r) (sort (batch_rows (test_part ds) batch_num k))))
        [0..<num_batches (test_part ds) batch_num]"
  let ?N = "nat \<lceil>rat_of_nat (length (test_part ds)) / rat_of_int batch_num\<rceil>"
  have run: "test_iterator ds batch_num = (items, None)"
    unfolding items_def using a test_iterator_readable[OF nz] by blast
  have len: "length items = ?N" by (simp add: items_def num_batches_ceiling)
  note pc = pass_contents(2)[OF assms, where part = "test_part ds" and ds = ds,
      folded batches_def]
    pass_contents(3)[OF assms, where part = "test_part ds"]
  have cont: "\<forall>k < ?N. \<forall>rows.
      rows = sort (take (nat batch_num) (drop (k * nat batch_num) (test_part ds))) \<longrightarrow>
        snd (items ! k) = map (\<lambda>r. vmap ds ! r) rows \<and>
        d1 (fst (items ! k)) =
             map (\<lambda>r. map (\<lambda>v. (v - (- 524 / 100)) / (817 / 100)) (fst (codes ds ! r))) rows \<and>
           d2 (fst (items ! k)) =
             map (\<lambda>r. map (\<lambda>v. (v - (- 524 / 100)) / (817 / 100)) (fst (snd (codes ds ! r)))) rows \<and>
           d3 (fst (items ! k)) =
             map (\<lambda>r. map (\<lambda>v. (v - (- 524 / 100)) / (817 / 100))
                         (fst (snd (snd (codes ds ! r))))) rows \<and>
           d4 (fst (items ! k)) =
             map (\<lambda>r. map (\<lambda>v. (v - (- 524 / 100)) / (817 / 100))
                         (snd (snd (snd (codes ds ! r))))) rows \<and>
           img (fst (items ! k)) = map (\<lambda>r. sat_patch ds (gsv_lat ds ! r) (gsv_lng ds ! r)) rows \<and>
           l (fst (items ! k)) =
             map (\<lambda>r. map (\<lambda>t. if labels ds ! r = t then 1 else 0) (label_types ds)) rows \<and>
           (if Suc k < ?N then length rows = nat batch_num
            else 0 < length rows \<and> length rows \<le> nat batch_num)"
  proof (intro allI impI)
    fix k rows
    assume k: "k < ?N"
      and rows: "rows = sort (take (nat batch_num) (drop (k * nat batch_num) (test_part ds)))"
    have kn: "k < num_batches (test_part ds) batch_num" using k by (simp add: num_batches_ceiling)
    have f: "batches ! k = fst (items ! k)" using kn by (simp add: batches_def items_def)
    have s: "snd (items ! k) = map (\<lambda>r. vmap ds ! r) rows"
      using kn by (simp add: items_def rows batch_rows_take[OF b0])
    from pc(1)[rule_format, OF k rows, unfolded f] s
    show "snd (items ! k) = map (\<lambda>r. vmap ds ! r) rows \<and>
        d1 (fst (items ! k)) =
             map (\<lambda>r. map (\<lambda>v. (v - (- 524 / 100)) / (817 / 100)) (fst (codes ds ! r))) rows \<and>
           d2 (fst (items ! k)) =
             map (\<lambda>r. map (\<lambda>v. (v - (- 524 / 100)) / (817 / 100)) (fst (snd (codes ds ! r)))) rows \<and>
           d3 (fst (items ! k)) =
             map (\<lambda>r. map (\<lambda>v. (v - (- 524 / 100)) / (817 / 100))
                         (fst (snd (snd (codes ds ! r))))) rows \<and>
           d4 (fst (items ! k)) =
             map (\<lambda>r. map (\<lambda>v. (v - (- 524 / 100)) / (817 / 100))
                         (snd (snd (snd (codes ds ! r))))) rows \<and>
           img (fst (items ! k)) = map (\<lambda>r. sat_patch ds (gsv_lat ds ! r) (gsv_lng ds ! r)) rows \<and>
           l (fst (items ! k)) =
             map (\<lambda>r. map (\<lambda>t. if labels ds ! r = t then 1 else 0) (label_types ds)) rows \<and>
           (if Suc k < ?N then length rows = nat batch_num
            else 0 < length rows \<and> length rows \<le> nat batch_num)"
      by (rule conjI[rotated])
  qed
  show "(\<exists>items N.
          N = nat \<lceil>rat_of_nat (length (test_part ds)) / rat_of_int batch_num\<rceil> \<and>
          test_iterator ds batch_num = (items, None) \<and>
          length items = N \<and>
          concat (map (\<lambda>k. take (nat batch_num) (drop (k * nat batch_num) (test_part ds))) [0..<N]) =
            test_part ds \<and>
          (\<forall>k < N. \<forall>rows. rows = sort (take (nat batch_num) (drop (k * nat batch_num) (test_part ds))) \<longrightarrow>
           snd (items ! k) = map (\<lambda>r. vmap ds ! r) rows \<and>
           d1 (fst (items ! k)) =
             map (\<lambda>r. map (\<lambda>v. (v - (- 524 / 100)) / (817 / 100)) (fst (codes ds ! r))) rows \<and>
           d2 (fst (items ! k)) =
             map (\<lambda>r. map (\<lambda>v. (v - (- 524 / 100)) / (817 / 100)) (fst (snd (codes ds ! r)))) rows \<and>
           d3 (fst (items ! k)) =
             map (\<lambda>r. map (\<lambda>v. (v - (- 524 / 100)) / (817 / 100))
                         (fst (snd (snd (codes ds ! r))))) rows \<and>
           d4 (fst (items ! k)) =
             map (\<lambda>r. map (\<lambda>v. (v - (- 524 / 100)) / (817 / 100))
                         (snd (snd (snd (codes ds ! r))))) rows \<and>
           img (fst (items ! k)) = map (\<lambda>r. sat_patch ds (gsv_lat ds ! r) (gsv_lng ds ! r)) rows \<and>
           l (fst (items ! k)) =
             map (\<lambda>r. map (\<lambda>t. if labels ds ! r = t then 1 else 0) (label_types ds)) rows \<and>
           (if Suc k < N then length rows = nat batch_num
            else 0 < length rows \<and> length rows \<le> nat batch_num)))"
    apply (intro exI[of _ items] exI[of _ ?N] conjI)
        apply (rule refl)
       apply (rule run)
      apply (rule len)
     apply (rule pc(2))
    apply (rule cont)
    done
next
  have nz: "batch_num \<noteq> 0" using assms by simp
  assume a: "distinct (validation_part ds) \<and> list_all (readable ds) (validation_part ds)"
  define batches where "batches =
      map (\<lambda>k. take_rows ds (sort (batch_rows (validation_part ds) batch_num k)))
        [0..<num_batches (validation_part ds) batch_num]"
  let ?N = "nat \<lceil>rat_of_nat (length (validation_part ds)) / rat_of_int batch_num\<rceil>"
  have run: "validation_iterator ds batch_num = (batches, None)"
    unfolding batches_def using a validation_iterator_readable[OF nz] by blast
  note pc = pass_contents(1)[OF assms, where part = "validation_part ds" and ds = ds,
      folded batches_def]
    pass_contents(2)[OF assms, where part = "validation_part ds" and ds = ds,
      folded batches_def]
    pass_contents(3)[OF assms, where part = "validation_part ds"]
  show "(\<exists>batches N.
          N = nat \<lceil>rat_of_nat (length (validation_part ds)) / rat_of_int batch_num\<rceil> \<and>
          validation_iterator ds batch_num = (batches, None) \<and>
          length batches = N \<and>
          concat (map (\<lambda>k. take (nat batch_num) (drop (k * nat batch_num) (validation_part ds))) [0..<N]) =
            validation_part ds \<and>
          (\<forall>k < N. \<forall>rows. rows = sort (take (nat batch_num) (drop (k * nat batch_num) (validation_part ds))) \<longrightarrow>
           d1 (batches ! k) =
             map (\<lambda>r. map (\<lambda>v. (v - (- 524 / 100)) / (817 / 100)) (fst (codes ds ! r))) rows \<and>
           d2 (batches ! k) =
             map (\<lambda>r. map (\<lambda>v. (v - (- 524 / 100)) / (817 / 100)) (fst (snd (codes ds ! r)))) rows \<and>
           d3 (batches ! k) =
             map (\<lambda>r. map (\<lambda>v. (v - (- 524 / 100)) / (817 / 100))
                         (fst (snd (snd (codes ds ! r))))) rows \<and>
           d4 (batches ! k) =
             map (\<lambda>r. map (\<lambda>v. (v - (- 524 / 100)) / (817 / 100))
                         (snd (snd (snd (codes ds ! r))))) rows \<and>
           img (batches ! k) = map (\<lambda>r. sat_patch ds (gsv_lat ds ! r) (gsv_lng ds ! r)) rows \<and>
           l (batches ! k) =
             map (\<lambda>r. map (\<lambda>t. if labels ds ! r = t then 1 else 0) (label_types ds)) rows \<and>
           (if Suc k < N then length rows = nat batch_num
            else 0 < length rows \<and> length rows \<le> nat batch_num)))"
    apply (intro exI[of _ batches] exI[of _ ?N] conjI)
        apply (rule refl)
       apply (rule run)
      apply (rule pc(1))
     apply (rule pc(3))
    apply (rule pc(2))
    done
next
  show "test_iterator (ds\<lparr>batch_ind := c1, batch_ind_valid := c2, batch_ind_test := c3\<rparr>)
             batch_num = test_iterator ds batch_num"
    by (rule test_iterator_cursors)
  show "validation_iterator (ds\<lparr>batch_ind := c1, batch_ind_valid := c2, batch_ind_test := c3\<rparr>)
             batch_num = validation_iterator ds batch_num"
    by (rule validation_iterator_cursors)
qed

theorem iterators_full_pass_witness:
  "(1::int) \<le> 2 \<and>
   distinct (test_part demo_split) \<and> list_all (readable demo_split) (test_part demo_split) \<and>
   list_all (\<lambda>r. r < length (vmap demo_split)) (test_part demo_split) \<and>
   distinct (validation_part demo_split) \<and>
   list_all (readable demo_split) (validation_part demo_split) \<and>
   test_part demo_split = [7, 1, 3] \<and> validation_part demo_split = [5] \<and>
   test_iterator demo_split 2 =
     ([(\<lparr>d1 = [[624 / 817], [1224 / 817]], d2 = [[624 / 817], [1224 / 817]],
         d3 = [[624 / 817], [1224 / 817]], d4 = [[624 / 817], [1224 / 817]],
         img = [0, 0], l = [[1, 0, 0], [0, 0, 1]]\<rparr>,
        [(''b'', ''p'', ''o'', ''l''), (''h'', ''p'', ''o'', ''l'')]),
       (\<lparr>d1 = [[824 / 817]], d2 = [[824 / 817]], d3 = [[824 / 817]], d4 = [[824 / 817]],
         img = [0], l = [[0, 1, 0]]\<rparr>,
        [(''d'', ''p'', ''o'', ''l'')])], None) \<and>
   validation_iterator demo_split 2 =
     ([\<lparr>d1 = [[1024 / 817]], d2 = [[1024 / 817]], d3 = [[1024 / 817]], d4 = [[1024 / 817]],
        img = [0], l = [[0, 1, 0]]\<rparr>], None)"
  (is "?h \<and> ?a1 \<and> ?a2 \<and> ?a3 \<and> ?b1 \<and> ?b2 \<and> ?p1 \<and> ?p2 \<and> ?c1 \<and> ?c2")
proof -
  have h: ?h by simp
  have a: "distinct (test_part demo_split) \<and> list_all (readable demo_split) (test_part demo_split) \<and>
      list_all (\<lambda>r. r < length (vmap demo_split)) (test_part demo_split)"
    by (simp add: demo_split_fields demo_split_readable demo_split_lengths)
  have b: "distinct (validation_part demo_split) \<and>
      list_all (readable demo_split) (validation_part demo_split)"
    by (simp add: demo_split_fields demo_split_readable)
  have p: ?p1 ?p2 by (simp_all add: demo_split_fields)
  note t = iterators_full_pass[OF h, of demo_split]
  from t[THEN conjunct1, THEN mp, OF a] obtain items where
    r: "test_iterator demo_split 2 = (items, None)"
    by blast
  from t[THEN conjunct2, THEN conjunct1, THEN mp, OF b] obtain batches where
    r': "validation_iterator demo_split 2 = (batches, None)"
    by blast
  have nz: "(2::int) \<noteq> 0" by simp
  have nb: "num_batches (test_part demo_split) 2 = 2"
    "num_batches (validation_part demo_split) 2 = 1"
    by (simp_all add: num_batches_def int_ceil_div demo_split_fields)
  have u: "[0..<2] = [0, Suc 0]" "[0..<1] = [0]" by (simp_all add: upt_conv_Cons)
  have s: "sort (batch_rows (test_part demo_split) 2 0) = [1, 7]"
    "sort (batch_rows (test_part demo_split) 2 (Suc 0)) = [3]"
    "sort (batch_rows (validation_part demo_split) 2 0) = [5]"
    by (simp_all add: batch_rows_def py_slice_def slice_bound_def demo_split_fields)
  have e1: "test_iterator demo_split 2 =
      ([(take_rows demo_split [1, 7], [(''b'', ''p'', ''o'', ''l''), (''h'', ''p'', ''o'', ''l'')]),
        (take_rows demo_split [3], [(''d'', ''p'', ''o'', ''l'')])], None)"
    using test_iterator_readable[OF nz, of demo_split] a by (simp add: nb u s demo_split_vmap)
  have e2: "validation_iterator demo_split 2 = ([take_rows demo_split [5]], None)"
    using validation_iterator_readable[OF nz, of demo_split] b by (simp add: nb u s)
  have "items =
      [(take_rows demo_split [1, 7], [(''b'', ''p'', ''o'', ''l''), (''h'', ''p'', ''o'', ''l'')]),
       (take_rows demo_split [3], [(''d'', ''p'', ''o'', ''l'')])]"
    using r e1 by simp
  with r demo_split_rows have c1: ?c1 by simp
  have "batches = [take_rows demo_split [5]]" using r' e2 by simp
  with r' demo_split_rows have c2: ?c2 by simp
  from h a b p c1 c2 show ?thesis by blast
qed

section \<open>The prediction export\<close>

text \<open>
  Claim C8. When the test indices are rows of the label table and \<open>preds\<close> has one entry per
  test sample, \<^verbatim>\<open>write_preds(preds, fname)\<close> writes to \<open>fname\<close> a table with the columns
  \<^verbatim>\<open>img_id, pcd, oa11, lsoa11\<close>, the label name and \<^verbatim>\<open>predicted\<close>, in that order, and one
  line per test sample: line \<open>i\<close> holds the identifiers and the label of the \<open>i\<close>-th smallest
  test index, followed by \<open>preds[i]\<close>.
\<close>

theorem write_preds_table:
  assumes "list_all (\<lambda>r. r < length (vmap ds) \<and> r < length (labels ds)) (test_part ds)"
    and "length preds = length (test_part ds)"
  shows "\<exists>t. write_preds ds preds fname fs = Inr (fs(fname \<mapsto> Csv t)) \<and>
           columns t = [''img_id'', ''pcd'', ''oa11'', ''lsoa11'', label_name ds, ''predicted''] \<and>
           length (lines t) = length (test_part ds) \<and>
           sorted (sort (test_part ds)) \<and> mset (sort (test_part ds)) = mset (test_part ds) \<and>
           (\<forall>i < length (test_part ds).
              lines t ! i =
                [Str (fst (vmap ds ! (sort (test_part ds) ! i))),
                 Str (fst (snd (vmap ds ! (sort (test_part ds) ! i)))),
                 Str (fst (snd (snd (vmap ds ! (sort (test_part ds) ! i))))),
                 Str (snd (snd (snd (vmap ds ! (sort (test_part ds) ! i))))),
                 Num (labels ds ! (sort (test_part ds) ! i)),
                 Num (preds ! i)])"
proof -
  let ?t = "\<lparr>columns = [''img_id'', ''pcd'', ''oa11'', ''lsoa11'', label_name ds, ''predicted''],
          lines = map (\<lambda>(r, p). [Str (fst (vmap ds ! r)), Str (fst (snd (vmap ds ! r))),
                          Str (fst (snd (snd (vmap ds ! r)))), Str (snd (snd (snd (vmap ds ! r)))),
                          Num (labels ds ! r), Num p])
                    (zip (sort (test_part ds)) preds)\<rparr>"
  have "write_preds ds preds fname fs = Inr (fs(fname \<mapsto> Csv ?t))"
    by (simp add: write_preds_def pred_matrix_ok[OF assms])
  moreover have "length (lines ?t) = length (test_part ds)" using assms(2) by simp
  moreover have "lines ?t ! i =
                [Str (fst (vmap ds ! (sort (test_part ds) ! i))),
                 Str (fst (snd (vmap ds ! (sort (test_part ds) ! i)))),
                 Str (fst (snd (snd (vmap ds ! (sort (test_part ds) ! i))))),
                 Str (snd (snd (snd (vmap ds ! (sort (test_part ds) ! i))))),
                 Num (labels ds ! (sort (test_part ds) ! i)),
                 Num (preds ! i)]" if "i < length (test_part ds)" for i
    using that assms(2) by simp
  ultimately show ?thesis by (intro exI[of _ ?t]) simp
qed

theorem write_preds_table_witness:
  "list_all (\<lambda>r. r < length (vmap demo_split) \<and> r < length (labels demo_split))
     (test_part demo_split) \<and>
   length [10, 20, 30 :: int] = length (test_part demo_split) \<and>
   write_preds demo_split [10, 20, 30] ''out.csv'' Map.empty =
     Inr [''out.csv'' \<mapsto> Csv
       \<lparr>columns = [''img_id'', ''pcd'', ''oa11'', ''lsoa11'', ''decile'', ''predicted''],
        lines = [[Str ''b'', Str ''p'', Str ''o'', Str ''l'', Num 0, Num 10],
                 [Str ''d'', Str ''p'', Str ''o'', Str ''l'', Num 1, Num 20],
                 [Str ''h'', Str ''p'', Str ''o'', Str ''l'', Num 2, Num 30]]\<rparr>]"
proof -
  have h: "list_all (\<lambda>r. r < length (vmap demo_split) \<and> r < length (labels demo_split))
     (test_part demo_split)"
    "length [10, 20, 30 :: int] = length (test_part demo_split)"
    by (simp_all add: demo_split_fields(2) demo_split_lengths)
  have s: "sort (test_part demo_split) = [1, 3, 7]" by (simp add: demo_split_fields)
  have e: "write_preds demo_split [10, 20, 30] ''out.csv'' Map.empty =
     Inr [''out.csv'' \<mapsto> Csv
       \<lparr>columns = [''img_id'', ''pcd'', ''oa11'', ''lsoa11'', ''decile'', ''predicted''],
        lines = [[Str ''b'', Str ''p'', Str ''o'', Str ''l'', Num 0, Num 10],
                 [Str ''d'', Str ''p'', Str ''o'', Str ''l'', Num 1, Num 20],
                 [Str ''h'', Str ''p'', Str ''o'', Str ''l'', Num 2, Num 30]]\<rparr>]"
    by (simp add: write_preds_def pred_matrix_ok[OF h] s demo_split_vmap demo_split_fields(7))
  from write_preds_table[OF h, of "''out.csv''" Map.empty] e h show ?thesis by blast
qed

section \<open>Balanced train batches\<close>



section \<open>Loading persisted partitions\<close>

text \<open>
  Claim C3, as amended. Take any of the four \<^verbatim>\<open>pick_label\<close> run in generate mode
  (\<open>part_gen = 1\<close>) and, on the files it wrote, the same \<^verbatim>\<open>pick_label\<close> run in load mode
  (\<open>part_gen \<noteq> 1\<close>) with any generating function whatever. Load mode never changes the
  files, and every load that returns has the test partition of generation time (in k-fold
  mode the same fold list and the test fold of the same \<open>part_kp\<close>; in
  train/validation/test mode also the same validation partition). When no decimation is
  requested at either time (\<open>psize \<ge> 1\<close>; k-fold: \<open>vsize \<le> 0\<close>), the load returns, and
  its train partition is the one of generation time as well. Nothing is promised for the
  train partition (and the k-fold validation partition) under decimation.
\<close>

theorem load_replays_persisted_partitions:
  fixes ds ds' :: "'p dataset"
  assumes "part_gen \<noteq> 1"
  shows
    "(Dataset_CrossValidation_pick_label kf perm ds fs 1 part_file kn kp vsize seed = Inr (ds1, fs1)
        \<longrightarrow>
        (vsize \<le> 0 \<and> vsize' \<le> 0 \<longrightarrow>
           Dataset_CrossValidation_pick_label kf' perm' ds' fs1 part_gen part_file kn' kp vsize' seed'
             = Inr (ds'\<lparr>kpartitions := kpartitions ds1, test_part := test_part ds1,
                       train_part := train_part ds1\<rparr>, fs1)) \<and>
        (\<forall>ds2 fs2.
           Dataset_CrossValidation_pick_label kf' perm' ds' fs1 part_gen part_file kn' kp vsize' seed'
             = Inr (ds2, fs2) \<longrightarrow>
           fs2 = fs1 \<and> kpartitions ds2 = kpartitions ds1 \<and> test_part ds2 = test_part ds1)) \<and>
     (Dataset_TVT_pick_label pv perm ds fs 1 part_file ts vs psize seed = Inr (ds3, fs3) \<longrightarrow>
        (1 \<le> psize \<and> 1 \<le> psize' \<longrightarrow>
           Dataset_TVT_pick_label pv' perm' ds' fs3 part_gen part_file ts' vs' psize' seed'
             = Inr (ds'\<lparr>validation_part := validation_part ds3, test_part := test_part ds3,
                       train_part := train_part ds3\<rparr>, fs3)) \<and>
        (\<forall>ds2 fs2.
           Dataset_TVT_pick_label pv' perm' ds' fs3 part_gen part_file ts' vs' psize' seed'
             = Inr (ds2, fs2) \<longrightarrow>
           fs2 = fs3 \<and> validation_part ds2 = validation_part ds3 \<and>
           test_part ds2 = test_part ds3)) \<and>
     (Dataset_TT_pick_label pst perm ds fs 1 part_file ts psize seed = Inr (ds4, fs4) \<longrightarrow>
        (1 \<le> psize \<and> 1 \<le> psize' \<longrightarrow>
           Dataset_TT_pick_label pst' perm' ds' fs4 part_gen part_file ts' psize' seed'
             = Inr (ds'\<lparr>test_part := test_part ds4, train_part := train_part ds4\<rparr>, fs4)) \<and>
        (\<forall>ds2 fs2.
           Dataset_TT_pick_label pst' perm' ds' fs4 part_gen part_file ts' psize' seed'
             = Inr (ds2, fs2) \<longrightarrow>
           fs2 = fs4 \<and> test_part ds2 = test_part ds4)) \<and>
     (Dataset_TT_byclass_pick_label pbc perm ds fs 1 part_file ts psize seed = Inr (ds5, fs5) \<longrightarrow>
        (1 \<le> psize \<and> 1 \<le> psize' \<longrightarrow>
           Dataset_TT_byclass_pick_label pbc' perm' ds' fs5 part_gen part_file ts' psize' seed'
             = Inr (ds'\<lparr>test_part := test_part ds5, train_part := train_part ds5\<rparr>, fs5)) \<and>
        (\<forall>ds2 fs2.
           Dataset_TT_byclass_pick_label pbc' perm' ds' fs5 part_gen part_file ts' psize' seed'
             = Inr (ds2, fs2) \<longrightarrow>
           fs2 = fs5 \<and> test_part ds2 = test_part ds5))"
proof (intro conjI impI)
  assume g: "Dataset_CrossValidation_pick_label kf perm ds fs 1 part_file kn kp vsize seed =
      Inr (ds1, fs1)"
  from cv_gen[OF g] obtain train0 where
    f: "fs1 part_file = Some (Pickle_folds (kpartitions ds1))"
    and p: "get_partition_stratified_kfold kp (kpartitions ds1) = Inr (train0, test_part ds1)"
    and t: "vsize \<le> 0 \<longrightarrow> train_part ds1 = train0"
    by auto
  note l = cv_load[where fs = fs1 and pf = part_file and kf = kf' and perm = perm' and ds = ds'
      and kn = kn' and i = kp and vsize = vsize' and seed = seed', OF assms f]
  show "Dataset_CrossValidation_pick_label kf' perm' ds' fs1 part_gen part_file kn' kp vsize' seed'
             = Inr (ds'\<lparr>kpartitions := kpartitions ds1, test_part := test_part ds1,
                       train_part := train_part ds1\<rparr>, fs1)"
    if "vsize \<le> 0 \<and> vsize' \<le> 0"
    using that t by (simp add: l p)
  show "\<forall>ds2 fs2.
           Dataset_CrossValidation_pick_label kf' perm' ds' fs1 part_gen part_file kn' kp vsize' seed'
             = Inr (ds2, fs2) \<longrightarrow>
           fs2 = fs1 \<and> kpartitions ds2 = kpartitions ds1 \<and> test_part ds2 = test_part ds1"
    by (auto simp: l p split: if_splits sum.splits)
next
  assume g: "Dataset_TVT_pick_label pv perm ds fs 1 part_file ts vs psize seed = Inr (ds3, fs3)"
  from tvt_gen[OF g] obtain tr where
    f: "fs3 (part_file @ ''_train'') = Some (Pickle_part tr)"
       "fs3 (part_file @ ''_validation'') = Some (Pickle_part (validation_part ds3))"
       "fs3 (part_file @ ''_test'') = Some (Pickle_part (test_part ds3))"
    and t: "1 \<le> psize \<longrightarrow> train_part ds3 = tr"
    by (auto simp: suffix_names)
  note l = tvt_load[where fs = fs3 and pf = part_file and pv = pv' and perm = perm' and ds = ds'
      and ts = ts' and vs = vs' and ps = psize' and seed = seed', OF assms f]
  show "Dataset_TVT_pick_label pv' perm' ds' fs3 part_gen part_file ts' vs' psize' seed'
             = Inr (ds'\<lparr>validation_part := validation_part ds3, test_part := test_part ds3,
                       train_part := train_part ds3\<rparr>, fs3)"
    if "1 \<le> psize \<and> 1 \<le> psize'"
    using that t by (simp add: l)
  show "\<forall>ds2 fs2.
           Dataset_TVT_pick_label pv' perm' ds' fs3 part_gen part_file ts' vs' psize' seed'
             = Inr (ds2, fs2) \<longrightarrow>
           fs2 = fs3 \<and> validation_part ds2 = validation_part ds3 \<and>
           test_part ds2 = test_part ds3"
    by (auto simp: l split: if_splits sum.splits)
next
  assume g: "Dataset_TT_pick_label pst perm ds fs 1 part_file ts psize seed = Inr (ds4, fs4)"
  from tt_gen[OF g] obtain tr where
    f: "fs4 (part_file @ ''_train'') = Some (Pickle_part tr)"
       "fs4 (part_file @ ''_test'') = Some (Pickle_part (test_part ds4))"
    and t: "1 \<le> psize \<longrightarrow> train_part ds4 = tr"
    by (auto simp: suffix_names)
  note l = tt_load[where fs = fs4 and pf = part_file and pst = pst' and perm = perm' and ds = ds'
      and ts = ts' and ps = psize' and seed = seed', OF assms f]
  show "Dataset_TT_pick_label pst' perm' ds' fs4 part_gen part_file ts' psize' seed'
             = Inr (ds'\<lparr>test_part := test_part ds4, train_part := train_part ds4\<rparr>, fs4)"
    if "1 \<le> psize \<and> 1 \<le> psize'"
    using that t by (simp add: l)
  show "\<forall>ds2 fs2.
           Dataset_TT_pick_label pst' perm' ds' fs4 part_gen part_file ts' psize' seed'
             = Inr (ds2, fs2) \<longrightarrow>
           fs2 = fs4 \<and> test_part ds2 = test_part ds4"
    by (auto simp: l split: if_splits sum.splits)
next
  assume g: "Dataset_TT_byclass_pick_label pbc perm ds fs 1 part_file ts psize seed =
      Inr (ds5, fs5)"
  from byclass_gen[OF g] obtain tr where
    f: "fs5 (part_file @ ''_train'') = Some (Pickle_part tr)"
       "fs5 (part_file @ ''_test'') = Some (Pickle_part (test_part ds5))"
    and t: "1 \<le> psize \<longrightarrow> train_part ds5 = tr"
    by (auto simp: suffix_names)
  note l = byclass_load[where fs = fs5 and pf = part_file and pbc = pbc' and perm = perm'
      and ds = ds' and ts = ts' and ps = psize' and seed = seed', OF assms f]
  show "Dataset_TT_byclass_pick_label pbc' perm' ds' fs5 part_gen part_file ts' psize' seed'
             = Inr (ds'\<lparr>test_part := test_part ds5, train_part := train_part ds5\<rparr>, fs5)"
    if "1 \<le> psize \<and> 1 \<le> psize'"
    using that t by (simp add: l)
  show "\<forall>ds2 fs2.
           Dataset_TT_byclass_pick_label pbc' perm' ds' fs5 part_gen part_file ts' psize' seed'
             = Inr (ds2, fs2) \<longrightarrow>
           fs2 = fs5 \<and> test_part ds2 = test_part ds5"
    by (auto simp: l split: if_splits sum.splits)
qed

text \<open>
  The claim as stated, that load mode always produces the partitions of generation time,
  fails in train/validation/test mode with \<open>psize = 1/2\<close>: \<^verbatim>\<open>pick_label\<close> decimates the
  persisted train partition by a fresh random draw on every call, and two draws (here the
  identity and the reversal) give the train partitions \<open>[0, 3, 6]\<close> at generation time and
  \<open>[1, 4, 7]\<close> on load, with the same files and the same arguments.
\<close>

theorem load_replays_generation_counterexample:
  "Dataset_TVT_pick_label demo_tvt (\<lambda>k. id) demo Map.empty 1 ''part'' (2 / 3) 0 (1 / 2) None =
     Inr (demo\<lparr>validation_part := [], test_part := [2, 5, 8], train_part := [0, 3, 6]\<rparr>,
          demo_files) \<and>
   Dataset_TVT_pick_label demo_tvt (\<lambda>k. rev) demo demo_files 0 ''part'' (2 / 3) 0 (1 / 2) None =
     Inr (demo\<lparr>validation_part := [], test_part := [2, 5, 8], train_part := [1, 4, 7]\<rparr>,
          demo_files) \<and>
   train_part (demo\<lparr>validation_part := [], test_part := [2, 5, 8], train_part := [0, 3, 6]\<rparr>) \<noteq>
   train_part (demo\<lparr>validation_part := [], test_part := [2, 5, 8], train_part := [1, 4, 7]\<rparr>)"
proof -
  have g: "Dataset_TVT_pick_label demo_tvt (\<lambda>k. id) demo Map.empty 1 ''part'' (2 / 3) 0 (1 / 2)
      None =
     Inr (demo\<lparr>validation_part := [], test_part := [2, 5, 8], train_part := [0, 3, 6]\<rparr>,
          demo_files)"
    using demo_decimate(1)
    by (simp add: Dataset_TVT_pick_label_def demo_tvt_def Let_def demo_files_def)
  have f: "demo_files (''part'' @ ''_train'') = Some (Pickle_part [0, 1, 3, 4, 6, 7])"
    "demo_files (''part'' @ ''_validation'') = Some (Pickle_part [])"
    "demo_files (''part'' @ ''_test'') = Some (Pickle_part [2, 5, 8])"
    by (simp_all add: demo_files_def)
  have l: "Dataset_TVT_pick_label demo_tvt (\<lambda>k. rev) demo demo_files 0 ''part'' (2 / 3) 0 (1 / 2)
      None =
     Inr (demo\<lparr>validation_part := [], test_part := [2, 5, 8], train_part := [1, 4, 7]\<rparr>,
          demo_files)"
    using demo_decimate(2)
    by (simp add: tvt_load[where fs = demo_files and pf = "''part''", OF _ f])
  from g l show ?thesis by simp
qed

theorem load_replays_persisted_partitions_witness:
  "(0::int) \<noteq> 1 \<and> (0::rat) \<le> 0 \<and> (1::rat) \<le> 1 \<and>
   Dataset_CrossValidation_pick_label demo_kfold (\<lambda>k. id) demo Map.empty 1 ''folds'' 3 0 0 None =
     Inr (demo\<lparr>kpartitions := [[0, 3, 6], [1, 4, 7], [2, 5, 8]], test_part := [0, 3, 6],
               train_part := [1, 4, 7, 2, 5, 8]\<rparr>,
          [''folds'' \<mapsto> Pickle_folds [[0, 3, 6], [1, 4, 7], [2, 5, 8]]]) \<and>
   Dataset_CrossValidation_pick_label (\<lambda>kn labs seed cl. Inl ValueError) (\<lambda>k. rev) demo
       [''folds'' \<mapsto> Pickle_folds [[0, 3, 6], [1, 4, 7], [2, 5, 8]]] 0 ''folds'' 3 0 0 None =
     Inr (demo\<lparr>kpartitions := [[0, 3, 6], [1, 4, 7], [2, 5, 8]], test_part := [0, 3, 6],
               train_part := [1, 4, 7, 2, 5, 8]\<rparr>,
          [''folds'' \<mapsto> Pickle_folds [[0, 3, 6], [1, 4, 7], [2, 5, 8]]]) \<and>
   Dataset_TVT_pick_label demo_tvt (\<lambda>k. id) demo Map.empty 1 ''part'' (2 / 3) 0 1 None =
     Inr (demo\<lparr>validation_part := [], test_part := [2, 5, 8],
               train_part := [0, 1, 3, 4, 6, 7]\<rparr>, demo_files) \<and>
   Dataset_TVT_pick_label (\<lambda>labs ts vs seed cl. Inl ValueError) (\<lambda>k. rev) demo demo_files 0
       ''part'' (2 / 3) 0 1 None =
     Inr (demo\<lparr>validation_part := [], test_part := [2, 5, 8],
               train_part := [0, 1, 3, 4, 6, 7]\<rparr>, demo_files) \<and>
   Dataset_TT_pick_label demo_tt (\<lambda>k. id) demo Map.empty 1 ''part'' (2 / 3) 1 None =
     Inr (demo\<lparr>test_part := [2, 5, 8], train_part := [0, 1, 3, 4, 6, 7]\<rparr>,
          [''part_train'' \<mapsto> Pickle_part [0, 1, 3, 4, 6, 7],
           ''part_test'' \<mapsto> Pickle_part [2, 5, 8]]) \<and>
   Dataset_TT_pick_label (\<lambda>labs ts seed cl. Inl ValueError) (\<lambda>k. rev) demo
       [''part_train'' \<mapsto> Pickle_part [0, 1, 3, 4, 6, 7],
        ''part_test'' \<mapsto> Pickle_part [2, 5, 8]] 0 ''part'' (2 / 3) 1 None =
     Inr (demo\<lparr>test_part := [2, 5, 8], train_part := [0, 1, 3, 4, 6, 7]\<rparr>,
          [''part_train'' \<mapsto> Pickle_part [0, 1, 3, 4, 6, 7],
           ''part_test'' \<mapsto> Pickle_part [2, 5, 8]]) \<and>
   Dataset_TT_byclass_pick_label demo_byclass (\<lambda>k. id) demo Map.empty 1 ''part'' (2 / 3) 1 None =
     Inr (demo\<lparr>test_part := [6, 7, 8], train_part := [0, 1, 2, 3, 4, 5]\<rparr>,
          [''part_train'' \<mapsto> Pickle_part [0, 1, 2, 3, 4, 5],
           ''part_test'' \<mapsto> Pickle_part [6, 7, 8]]) \<and>
   Dataset_TT_byclass_pick_label (\<lambda>labs held seed. Inl ValueError) (\<lambda>k. rev) demo
       [''part_train'' \<mapsto> Pickle_part [0, 1, 2, 3, 4, 5],
        ''part_test'' \<mapsto> Pickle_part [6, 7, 8]] 0 ''part'' (2 / 3) 1 None =
     Inr (demo\<lparr>test_part := [6, 7, 8], train_part := [0, 1, 2, 3, 4, 5]\<rparr>,
          [''part_train'' \<mapsto> Pickle_part [0, 1, 2, 3, 4, 5],
           ''part_test'' \<mapsto> Pickle_part [6, 7, 8]])"
  (is "?h0 \<and> ?h1 \<and> ?h2 \<and> ?g1 \<and> ?l1 \<and> ?g2 \<and> ?l2 \<and> ?g3 \<and> ?l3 \<and> ?g4 \<and> ?l4")
proof -
  have h0: ?h0 and h1: ?h1 and h2: ?h2 by simp_all
  have g1: ?g1
    by (simp add: Dataset_CrossValidation_pick_label_def demo_kfold_def Let_def
        get_partition_stratified_kfold_def)
  have g2: ?g2
    by (simp add: Dataset_TVT_pick_label_def demo_tvt_def Let_def demo_files_def)
  have g3: ?g3
    by (simp add: Dataset_TT_pick_label_def demo_tt_def Let_def)
  have g4: ?g4
    by (simp add: Dataset_TT_byclass_pick_label_def demo_byclass_def Let_def)
  note t = load_replays_persisted_partitions[OF h0, where ds' = demo and part_file = "''folds''"
      and kf = demo_kfold and perm = "\<lambda>k. id" and ds = demo and fs = Map.empty and kn = 3
      and kp = 0 and vsize = 0 and seed = None and vsize' = 0
      and kf' = "\<lambda>kn labs seed cl. Inl ValueError" and perm' = "\<lambda>k. rev" and kn' = 3
      and seed' = None, THEN conjunct1]
  from t[THEN mp, OF g1, THEN conjunct1] h1 have l1: ?l1 by simp
  note t = load_replays_persisted_partitions[OF h0, where ds' = demo and part_file = "''part''"
      and pv = demo_tvt and perm = "\<lambda>k. id" and ds = demo and fs = Map.empty
      and ts = "2 / 3" and vs = 0 and psize = 1 and seed = None and psize' = 1
      and pv' = "\<lambda>labs ts vs seed cl. Inl ValueError" and perm' = "\<lambda>k. rev"
      and ts' = "2 / 3" and vs' = 0 and seed' = None, THEN conjunct2, THEN conjunct1]
  from t[THEN mp, OF g2, THEN conjunct1] h2 have l2: ?l2 by simp
  note t = load_replays_persisted_partitions[OF h0, where ds' = demo and part_file = "''part''"
      and pst = demo_tt and perm = "\<lambda>k. id" and ds = demo and fs = Map.empty
      and ts = "2 / 3" and psize = 1 and seed = None and psize' = 1
      and pst' = "\<lambda>labs ts seed cl. Inl ValueError" and perm' = "\<lambda>k. rev"
      and ts' = "2 / 3" and seed' = None, THEN conjunct2, THEN conjunct2, THEN conjunct1]
  from t[THEN mp, OF g3, THEN conjunct1] h2 have l3: ?l3 by simp
  note t = load_replays_persisted_partitions[OF h0, where ds' = demo and part_file = "''part''"
      and pbc = demo_byclass and perm = "\<lambda>k. id" and ds = demo and fs = Map.empty
      and ts = "2 / 3" and psize = 1 and seed = None and psize' = 1
      and pbc' = "\<lambda>labs held seed. Inl ValueError" and perm' = "\<lambda>k. rev"
      and ts' = "2 / 3" and seed' = None, THEN conjunct2, THEN conjunct2, THEN conjunct2]
  from t[THEN mp, OF g4, THEN conjunct1] h2 have l4: ?l4 by simp
  from h0 h1 h2 g1 l1 g2 l2 g3 l3 g4 l4 show ?thesis by blast
qed

section \<open>Validation in the two-way subclasses\<close>

text \<open>
  Claim C4, evaluated on the population after \<^verbatim>\<open>Dataset_TT.pick_label\<close>. The batch getters of
  the two-way subclasses are the train getters. \<^verbatim>\<open>write_preds_validation\<close> is not routed:
  it reads \<open>validation_part\<close>, which no method of these subclasses assigns, so it still is
  the empty placeholder; with one prediction per train sample the row counts differ and the
  call raises \<^verbatim>\<open>ValueError\<close>, where the table over the train partition (the last equation)
  has six lines.
\<close>

theorem tt_validation_on_train:
  "Dataset_TT_pick_label demo_tt (\<lambda>k. id) demo Map.empty 1 ''part'' (2 / 3) 1 None =
     Inr (demo\<lparr>test_part := [2, 5, 8], train_part := [0, 1, 3, 4, 6, 7]\<rparr>,
          [''part_train'' \<mapsto> Pickle_part [0, 1, 3, 4, 6, 7],
           ''part_test'' \<mapsto> Pickle_part [2, 5, 8]]) \<and>
   validation_part (demo\<lparr>test_part := [2, 5, 8], train_part := [0, 1, 3, 4, 6, 7]\<rparr>) = [] \<and>
   Dataset_TT_get_validation_batch
       (demo\<lparr>test_part := [2, 5, 8], train_part := [0, 1, 3, 4, 6, 7]\<rparr>) 2 =
     get_train_batch (demo\<lparr>test_part := [2, 5, 8], train_part := [0, 1, 3, 4, 6, 7]\<rparr>) 2 \<and>
   Dataset_TT_get_balanced_validation_batch (\<lambda>k. id)
       (demo\<lparr>test_part := [2, 5, 8], train_part := [0, 1, 3, 4, 6, 7]\<rparr>) 3 =
     get_balanced_train_batch (\<lambda>k. id)
       (demo\<lparr>test_part := [2, 5, 8], train_part := [0, 1, 3, 4, 6, 7]\<rparr>) 3 \<and>
   Dataset_TT_write_preds_validation
       (demo\<lparr>test_part := [2, 5, 8], train_part := [0, 1, 3, 4, 6, 7]\<rparr>)
       [0, 0, 1, 1, 2, 2] ''valid.csv'' Map.empty = Inl ValueError \<and>
   Dataset_TT_byclass_write_preds_validation
       (demo\<lparr>test_part := [2, 5, 8], train_part := [0, 1, 3, 4, 6, 7]\<rparr>)
       [0, 0, 1, 1, 2, 2] ''valid.csv'' Map.empty = Inl ValueError \<and>
   pred_matrix (demo\<lparr>test_part := [2, 5, 8], train_part := [0, 1, 3, 4, 6, 7]\<rparr>)
       (train_part (demo\<lparr>test_part := [2, 5, 8], train_part := [0, 1, 3, 4, 6, 7]\<rparr>))
       [0, 0, 1, 1, 2, 2] =
     Inr \<lparr>columns = [''img_id'', ''pcd'', ''oa11'', ''lsoa11'', ''decile'', ''predicted''],
          lines = [[Str ''a'', Str ''p'', Str ''o'', Str ''l'', Num 0, Num 0],
                   [Str ''b'', Str ''p'', Str ''o'', Str ''l'', Num 0, Num 0],
                   [Str ''d'', Str ''p'', Str ''o'', Str ''l'', Num 1, Num 1],
                   [Str ''e'', Str ''p'', Str ''o'', Str ''l'', Num 1, Num 1],
                   [Str ''g'', Str ''p'', Str ''o'', Str ''l'', Num 2, Num 2],
                   [Str ''h'', Str ''p'', Str ''o'', Str ''l'', Num 2, Num 2]]\<rparr>"
  (is "?g \<and> ?v \<and> ?b \<and> ?bb \<and> ?w1 \<and> ?w2 \<and> ?p")
proof -
  let ?D = "demo\<lparr>test_part := [2, 5, 8], train_part := [0, 1, 3, 4, 6, 7]\<rparr>"
  have g: ?g by (simp add: Dataset_TT_pick_label_def demo_tt_def Let_def)
  have v: ?v by (simp add: demo_fields)
  have b: ?b by (simp add: Dataset_TT_get_validation_batch_def)
  have bb: ?bb by (simp add: Dataset_TT_get_balanced_validation_batch_def)
  have w1: ?w1 and w2: ?w2
    using tt_write_preds_validation_no_partition[OF v, of "[0, 0, 1, 1, 2, 2]"] by simp_all
  have f: "vmap ?D =
     [(''a'', ''p'', ''o'', ''l''), (''b'', ''p'', ''o'', ''l''), (''c'', ''p'', ''o'', ''l''),
      (''d'', ''p'', ''o'', ''l''), (''e'', ''p'', ''o'', ''l''), (''f'', ''p'', ''o'', ''l''),
      (''g'', ''p'', ''o'', ''l''), (''h'', ''p'', ''o'', ''l''), (''i'', ''p'', ''o'', ''l'')]"
    "labels ?D = [0, 0, 0, 1, 1, 1, 2, 2, 2]" "label_name ?D = ''decile''"
    "train_part ?D = [0, 1, 3, 4, 6, 7]"
    by (simp_all add: demo_def Dataset_init_def map_labels_def Let_def)
  have p: ?p
    unfolding pred_matrix_def Let_def f by simp
  from g v b bb w1 w2 p show ?thesis by blast
qed

end
